theory Spec2Isabelle
  imports Complex_Main "HOL-Library.Log_Nat"
begin

section \<open>JavaScript values\<close>

text \<open>
  The inventory tracker of \<^verbatim>\<open>src/app.js\<close> keeps three collections in the browser's
  localStorage and computes with JavaScript numbers. A Number is \<open>NaN\<close>, one of the two
  infinities, or a finite value, given as the rational it denotes. Negative zero is not
  kept apart from zero.

  A numeric field of a stored record holds a Number or, after a trip through JSON,
  \<^verbatim>\<open>null\<close>: \<^verbatim>\<open>JSON.stringify\<close> writes \<open>NaN\<close> and the infinities as \<^verbatim>\<open>null\<close>. What a
  caller supplies for a numeric field (form text, a Number, nothing) is an \<open>arg\<close>.
\<close>

datatype jsnum = NaN | PosInf | NegInf | Fin rat

datatype jsval = Null | Number jsnum

datatype arg = Undefined | Str string | Val jsval

fun ToNumber :: "jsval \<Rightarrow> jsnum" where
  "ToNumber Null = Fin 0"
| "ToNumber (Number n) = n"

subsection \<open>Rounding to a double\<close>

text \<open>
  The finite Numbers are the IEEE 754 doubles: \<open>m * 2^p\<close> with \<open>\<bar>m\<bar> < 2^53\<close> and
  \<open>-1074 \<le> p \<le> 971\<close>. Every arithmetic operation and every conversion from text gives
  the exact result rounded to the nearest double, ties to the even mantissa, and an
  infinity from \<open>2^1024\<close> on. \<open>floor_log2 a\<close> is the exponent \<open>e\<close> with
  \<open>2^e \<le> a < 2^(e+1)\<close> for \<open>a > 0\<close>.
\<close>

definition inf_of_sign :: "bool \<Rightarrow> jsnum" where
  "inf_of_sign positive = (if positive then PosInf else NegInf)"

definition pow2 :: "int \<Rightarrow> rat" where
  "pow2 e = (if e \<ge> 0 then 2 ^ nat e else 1 / 2 ^ nat (- e))"

definition pow10 :: "int \<Rightarrow> rat" where
  "pow10 e = (if e \<ge> 0 then 10 ^ nat e else 1 / 10 ^ nat (- e))"

definition floor_log2 :: "rat \<Rightarrow> int" where
  "floor_log2 a =
     (let e0 = bitlen (fst (quotient_of a)) - bitlen (snd (quotient_of a))
      in if pow2 e0 \<le> a then e0 else e0 - 1)"

definition round_half_even :: "rat \<Rightarrow> int" where
  "round_half_even q =
     (let f = \<lfloor>q\<rfloor>; d = q - of_int f
      in if d < 1 / 2 then f
         else if d > 1 / 2 then f + 1
         else if even f then f else f + 1)"

definition round_double :: "rat \<Rightarrow> jsnum" where
  "round_double r =
     (if r = 0 then Fin 0
      else
        (let a = \<bar>r\<bar>;
             p = max (floor_log2 a - 52) (- 1074);
             v = of_int (round_half_even (a / pow2 p)) * pow2 p
         in if v \<ge> pow2 1024 then inf_of_sign (r > 0)
            else Fin (if r > 0 then v else - v)))"

subsection \<open>Arithmetic\<close>

text \<open>\<^verbatim>\<open>a > b\<close> on Numbers: false as soon as one side is \<open>NaN\<close>.\<close>

fun js_gt :: "jsnum \<Rightarrow> jsnum \<Rightarrow> bool" where
  "js_gt NaN _ = False"
| "js_gt _ NaN = False"
| "js_gt PosInf b = (b \<noteq> PosInf)"
| "js_gt NegInf _ = False"
| "js_gt (Fin a) PosInf = False"
| "js_gt (Fin a) NegInf = True"
| "js_gt (Fin a) (Fin b) = (a > b)"

fun js_neg :: "jsnum \<Rightarrow> jsnum" where
  "js_neg NaN = NaN"
| "js_neg PosInf = NegInf"
| "js_neg NegInf = PosInf"
| "js_neg (Fin a) = Fin (- a)"

fun js_add :: "jsnum \<Rightarrow> jsnum \<Rightarrow> jsnum" where
  "js_add NaN _ = NaN"
| "js_add _ NaN = NaN"
| "js_add PosInf b = (if b = NegInf then NaN else PosInf)"
| "js_add NegInf b = (if b = PosInf then NaN else NegInf)"
| "js_add (Fin a) PosInf = PosInf"
| "js_add (Fin a) NegInf = NegInf"
| "js_add (Fin a) (Fin b) = round_double (a + b)"

definition js_sub :: "jsnum \<Rightarrow> jsnum \<Rightarrow> jsnum" where
  "js_sub a b = js_add a (js_neg b)"

fun js_mul :: "jsnum \<Rightarrow> jsnum \<Rightarrow> jsnum" where
  "js_mul NaN _ = NaN"
| "js_mul _ NaN = NaN"
| "js_mul PosInf PosInf = PosInf"
| "js_mul PosInf NegInf = NegInf"
| "js_mul NegInf PosInf = NegInf"
| "js_mul NegInf NegInf = PosInf"
| "js_mul PosInf (Fin b) = (if b = 0 then NaN else inf_of_sign (b > 0))"
| "js_mul NegInf (Fin b) = (if b = 0 then NaN else inf_of_sign (b < 0))"
| "js_mul (Fin a) PosInf = (if a = 0 then NaN else inf_of_sign (a > 0))"
| "js_mul (Fin a) NegInf = (if a = 0 then NaN else inf_of_sign (a < 0))"
| "js_mul (Fin a) (Fin b) = round_double (a * b)"

text \<open>
  \<^verbatim>\<open>a / b\<close>: a zero divisor gives \<open>NaN\<close> for \<open>0 / 0\<close> and an infinity otherwise, never
  an exception.
\<close>

fun js_div :: "jsnum \<Rightarrow> jsnum \<Rightarrow> jsnum" where
  "js_div NaN _ = NaN"
| "js_div _ NaN = NaN"
| "js_div PosInf (Fin b) = inf_of_sign (b \<ge> 0)"
| "js_div NegInf (Fin b) = inf_of_sign (b < 0)"
| "js_div PosInf _ = NaN"
| "js_div NegInf _ = NaN"
| "js_div (Fin a) PosInf = Fin 0"
| "js_div (Fin a) NegInf = Fin 0"
| "js_div (Fin a) (Fin b) =
     (if b = 0 then (if a = 0 then NaN else inf_of_sign (a > 0)) else round_double (a / b))"

text \<open>The value that comes back after \<^verbatim>\<open>JSON.stringify\<close> and \<^verbatim>\<open>JSON.parse\<close>.\<close>

fun json :: "jsval \<Rightarrow> jsval" where
  "json (Number (Fin r)) = Number (Fin r)"
| "json _ = Null"

subsection \<open>Strings\<close>

text \<open>Strings are ASCII text; \<^verbatim>\<open>toLowerCase\<close> maps \<open>A..Z\<close> to \<open>a..z\<close>.\<close>

definition lower_char :: "char \<Rightarrow> char" where
  "lower_char c =
     (if (65::nat) \<le> of_char c \<and> of_char c \<le> (90::nat)
      then char_of (of_char c + (32::nat)) else c)"

definition toLowerCase :: "string \<Rightarrow> string" where
  "toLowerCase s = map lower_char s"

definition is_space :: "char \<Rightarrow> bool" where
  "is_space c = (of_char c \<in> {9::nat, 10, 11, 12, 13, 32})"

definition is_digit :: "char \<Rightarrow> bool" where
  "is_digit c = ((48::nat) \<le> of_char c \<and> of_char c \<le> (57::nat))"

text \<open>The value of a digit in radix up to 16, as \<^verbatim>\<open>parseInt\<close> reads it.\<close>

definition digit_of :: "char \<Rightarrow> nat option" where
  "digit_of c =
     (let n = (of_char c :: nat) in
      if 48 \<le> n \<and> n \<le> 57 then Some (n - 48)
      else if 97 \<le> n \<and> n \<le> 102 then Some (n - 87)
      else if 65 \<le> n \<and> n \<le> 70 then Some (n - 55)
      else None)"

definition radix_digit :: "nat \<Rightarrow> char \<Rightarrow> bool" where
  "radix_digit r c = (case digit_of c of Some d \<Rightarrow> d < r | None \<Rightarrow> False)"

definition digits_value :: "nat \<Rightarrow> string \<Rightarrow> int" where
  "digits_value r ds =
     foldl (\<lambda>acc c. case digit_of c of Some d \<Rightarrow> acc * int r + int d | None \<Rightarrow> acc) 0 ds"

text \<open>
  \<^verbatim>\<open>parseInt(s)\<close> on a string: leading white space is skipped, a sign is read, a
  \<^verbatim>\<open>0x\<close> prefix selects radix 16, and the longest run of digits is the value; no digit
  at all gives \<open>NaN\<close>. The value is rounded to a double.
\<close>

definition parseInt_str :: "string \<Rightarrow> jsnum" where
  "parseInt_str s =
     (let s1 = dropWhile is_space s;
          negative = (s1 \<noteq> [] \<and> hd s1 = CHR ''-'');
          s2 = (if s1 \<noteq> [] \<and> hd s1 \<in> {CHR ''+'', CHR ''-''} then tl s1 else s1);
          hex = (take 2 s2 = ''0x'' \<or> take 2 s2 = ''0X'');
          radix = (if hex then 16 else 10);
          s3 = (if hex then drop 2 s2 else s2);
          ds = takeWhile (radix_digit radix) s3
      in if ds = [] then NaN
         else if negative then round_double (- of_int (digits_value radix ds))
         else round_double (of_int (digits_value radix ds)))"

text \<open>Rounding towards zero: the integer part.\<close>

definition trunc :: "rat \<Rightarrow> int" where
  "trunc r = (if r \<ge> 0 then \<lfloor>r\<rfloor> else \<lceil>r\<rceil>)"

text \<open>
  \<^verbatim>\<open>parseInt(n)\<close> on a finite Number reads the text \<^verbatim>\<open>String(n)\<close>. From \<open>10^-6\<close> up
  to \<open>10^21\<close> that text is positional and the digits before the point are the integer
  part of \<open>n\<close>. Outside that range the text is in exponent notation,
  \<^verbatim>\<open>d.ddde+x\<close>, and \<^verbatim>\<open>parseInt\<close> reads the single digit \<open>d\<close> before the point: the first
  digit of the shortest decimal that rounds to \<open>n\<close>.

  \<open>decimal_length n\<close> is the number of decimal digits of \<open>n\<close>, and \<open>floor_log10 a\<close>
  the exponent \<open>x\<close> with \<open>10^x \<le> a < 10^(x+1)\<close> for \<open>a > 0\<close>.
  \<open>digits_at a k\<close> is the \<open>k\<close>-digit decimal mantissa that rounds to the double \<open>a\<close>, the
  closest one if two do (the even one on a tie), and \<open>None\<close> if none does.
\<close>

function decimal_length :: "int \<Rightarrow> int" where
  "decimal_length n = (if n < 10 then 1 else decimal_length (n div 10) + 1)"
  by pat_completeness auto
termination
  by (relation "measure nat") auto

declare decimal_length.simps [simp del]

definition floor_log10 :: "rat \<Rightarrow> int" where
  "floor_log10 a =
     (if a \<ge> 1 then decimal_length \<lfloor>a\<rfloor> - 1
      else - decimal_length (\<lceil>1 / a\<rceil> - 1))"

definition digits_at :: "rat \<Rightarrow> nat \<Rightarrow> int option" where
  "digits_at a k =
     (let scale = pow10 (floor_log10 a + 1 - int k);
          lo = \<lfloor>a / scale\<rfloor>;
          c_lo = of_int lo * scale;
          c_hi = of_int (lo + 1) * scale;
          ok_lo = (round_double c_lo = Fin a);
          ok_hi = (round_double c_hi = Fin a)
      in if ok_lo \<and> ok_hi then
           Some (if a - c_lo < c_hi - a then lo
                 else if c_hi - a < a - c_lo then lo + 1
                 else if even lo then lo else lo + 1)
         else if ok_lo then Some lo
         else if ok_hi then Some (lo + 1)
         else None)"

fun shortest_digits :: "rat \<Rightarrow> nat list \<Rightarrow> (int \<times> nat) option" where
  "shortest_digits a [] = None"
| "shortest_digits a (k # ks) =
     (case digits_at a k of Some s \<Rightarrow> Some (s, k) | None \<Rightarrow> shortest_digits a ks)"

text \<open>
  The first digit of \<^verbatim>\<open>String(a)\<close> for a double \<open>a > 0\<close>. A double needs at most 17
  digits; a mantissa that was rounded up to \<open>10^k\<close> is written \<open>1\<close>.
\<close>

definition first_digit :: "rat \<Rightarrow> int" where
  "first_digit a =
     (case shortest_digits a [1 ..< 18] of
        Some (s, k) \<Rightarrow> if s = 10 ^ k then 1 else s div 10 ^ (k - 1)
      | None \<Rightarrow> \<lfloor>a / pow10 (floor_log10 a)\<rfloor>)"

definition parseInt_number :: "rat \<Rightarrow> jsnum" where
  "parseInt_number r =
     (if r = 0 then Fin 0
      else if 1 / 10 ^ 6 \<le> \<bar>r\<bar> \<and> \<bar>r\<bar> < 10 ^ 21 then Fin (of_int (trunc r))
      else if r > 0 then Fin (of_int (first_digit r))
      else Fin (- of_int (first_digit (- r))))"

text \<open>
  \<^verbatim>\<open>parseInt(v)\<close> first turns \<open>v\<close> into a string: \<^verbatim>\<open>undefined\<close>, \<^verbatim>\<open>null\<close>,
  \<open>NaN\<close> and the infinities print as words without a digit.
\<close>

fun parseInt :: "arg \<Rightarrow> jsnum" where
  "parseInt Undefined = NaN"
| "parseInt (Str s) = parseInt_str s"
| "parseInt (Val Null) = NaN"
| "parseInt (Val (Number (Fin r))) = parseInt_number r"
| "parseInt (Val (Number _)) = NaN"

text \<open>
  \<^verbatim>\<open>parseFloat(s)\<close> on a string reads the longest prefix that is a decimal literal:
  a sign, then \<^verbatim>\<open>Infinity\<close> or digits with an optional fraction and exponent. The
  value is rounded to a double. \<^verbatim>\<open>parseFloat(n)\<close> on a Number reads back \<^verbatim>\<open>String(n)\<close>,
  which denotes \<open>n\<close> again.
\<close>

definition parse_exponent :: "string \<Rightarrow> int" where
  "parse_exponent s =
     (if s \<noteq> [] \<and> hd s \<in> {CHR ''e'', CHR ''E''} then
        (let s1 = tl s;
             negative = (s1 \<noteq> [] \<and> hd s1 = CHR ''-'');
             s2 = (if s1 \<noteq> [] \<and> hd s1 \<in> {CHR ''+'', CHR ''-''} then tl s1 else s1);
             ds = takeWhile is_digit s2
         in if ds = [] then 0
            else if negative then - digits_value 10 ds else digits_value 10 ds)
      else 0)"

definition parseFloat_str :: "string \<Rightarrow> jsnum" where
  "parseFloat_str s =
     (let s1 = dropWhile is_space s;
          negative = (s1 \<noteq> [] \<and> hd s1 = CHR ''-'');
          s2 = (if s1 \<noteq> [] \<and> hd s1 \<in> {CHR ''+'', CHR ''-''} then tl s1 else s1)
      in if take 8 s2 = ''Infinity'' then inf_of_sign (\<not> negative)
         else
           (let ip = takeWhile is_digit s2;
                r1 = dropWhile is_digit s2;
                has_point = (r1 \<noteq> [] \<and> hd r1 = CHR ''.'');
                fp = (if has_point then takeWhile is_digit (tl r1) else []);
                r2 = (if has_point then dropWhile is_digit (tl r1) else r1)
            in if ip = [] \<and> fp = [] then NaN
               else
                 (let mantissa = of_int (digits_value 10 ip)
                        + of_int (digits_value 10 fp) / 10 ^ length fp;
                      v = mantissa * pow10 (parse_exponent r2)
                  in round_double (if negative then - v else v))))"

fun parseFloat :: "arg \<Rightarrow> jsnum" where
  "parseFloat Undefined = NaN"
| "parseFloat (Str s) = parseFloat_str s"
| "parseFloat (Val Null) = NaN"
| "parseFloat (Val (Number n)) = n"

text \<open>\<^verbatim>\<open>String(n)\<close> for a non-negative integer, used for the generated identifiers.\<close>

fun show_nat :: "nat \<Rightarrow> string" where
  "show_nat n =
     (if n < 10 then [char_of (48 + n)]
      else show_nat (n div 10) @ [char_of (48 + n mod 10)])"

declare show_nat.simps [simp del]

section \<open>The data model\<close>

text \<open>
  The records of the three collections. Timestamps are milliseconds since the epoch: the
  ISO string that \<^verbatim>\<open>toISOString\<close> writes and \<^verbatim>\<open>new Date\<close> reads back denotes exactly
  one such instant.
\<close>

record item =
  item_id :: string
  name :: string
  category :: string
  quantity :: jsval
  unitCost :: jsval
  dateAdded :: int
  description :: string

record withdrawal =
  w_id :: string
  itemId :: string
  itemName :: string
  w_category :: string
  w_quantity :: jsval
  w_unitCost :: jsval
  totalCost :: jsval
  date :: int
  w_notes :: string

text \<open>The argument of \<^verbatim>\<open>addItem\<close>: the fields of the add-item form.\<close>

record itemData =
  d_name :: string
  d_category :: string
  d_quantity :: arg
  d_unitCost :: arg
  d_description :: "string option"

text \<open>
  The second argument of \<^verbatim>\<open>updateItem\<close>: an object that may lack any of its keys
  (\<open>None\<close>, and \<open>Undefined\<close> for the two numeric ones).
\<close>

record updates =
  u_id :: "string option"
  u_name :: "string option"
  u_category :: "string option"
  u_quantity :: arg
  u_unitCost :: arg
  u_dateAdded :: "int option"
  u_description :: "string option"

record withdrawalData =
  wd_itemId :: string
  wd_quantity :: arg
  wd_notes :: "string option"

text \<open>
  What \<^verbatim>\<open>showNotification\<close> is called with by the ledger operations:
  \<^item> \<open>ItemNotFound\<close>: \<^verbatim>\<open>'Item not found.'\<close>
  \<^item> \<open>InsufficientStock v\<close>: \<^verbatim>\<open>'Insufficient stock. Available: ' + v\<close>
  \<^item> \<open>CategoryInUse\<close>: \<^verbatim>\<open>'Cannot delete category: It is being used by one or more items.'\<close>
  \<^item> \<open>StorageError\<close>: \<^verbatim>\<open>'Storage error: Unable to save data. Storage may be full.'\<close>
\<close>

datatype notification = ItemNotFound | InsufficientStock jsval | CategoryInUse | StorageError

text \<open>
  The state the operations run in: the arrays that the texts under the three localStorage
  keys denote (\<open>None\<close> while a key has never been written), whether \<^verbatim>\<open>localStorage.setItem\<close> throws (the quota is
  exceeded), and the notifications shown so far.
\<close>

record state =
  items :: "item list option"
  categories :: "string list option"
  withdrawals :: "withdrawal list option"
  storage_full :: bool
  notifications :: "notification list"

definition DEFAULT_CATEGORIES :: "string list" where
  "DEFAULT_CATEGORIES = [''Electronics'', ''Office Supplies'', ''Tools'', ''Uncategorized'']"

definition showNotification :: "notification \<Rightarrow> state \<Rightarrow> state" where
  "showNotification n st = st\<lparr>notifications := notifications st @ [n]\<rparr>"

section \<open>Storage utilities\<close>

definition json_item :: "item \<Rightarrow> item" where
  "json_item it = it\<lparr>quantity := json (quantity it), unitCost := json (unitCost it)\<rparr>"

definition json_withdrawal :: "withdrawal \<Rightarrow> withdrawal" where
  "json_withdrawal w =
     w\<lparr>w_quantity := json (w_quantity w), w_unitCost := json (w_unitCost w),
       totalCost := json (totalCost w)\<rparr>"

text \<open>
  \<^verbatim>\<open>saveToLocalStorage(key, data)\<close>, once for each key. When \<^verbatim>\<open>setItem\<close> throws, the
  error is caught, a notification is shown and \<^verbatim>\<open>false\<close> is returned with the stored
  value as it was.
\<close>

definition saveToLocalStorage_ITEMS :: "item list \<Rightarrow> state \<Rightarrow> bool \<times> state" where
  "saveToLocalStorage_ITEMS data st =
     (if storage_full st then (False, showNotification StorageError st)
      else (True, st\<lparr>items := Some (map json_item data)\<rparr>))"

definition saveToLocalStorage_CATEGORIES :: "string list \<Rightarrow> state \<Rightarrow> bool \<times> state" where
  "saveToLocalStorage_CATEGORIES data st =
     (if storage_full st then (False, showNotification StorageError st)
      else (True, st\<lparr>categories := Some data\<rparr>))"

definition saveToLocalStorage_WITHDRAWALS :: "withdrawal list \<Rightarrow> state \<Rightarrow> bool \<times> state" where
  "saveToLocalStorage_WITHDRAWALS data st =
     (if storage_full st then (False, showNotification StorageError st)
      else (True, st\<lparr>withdrawals := Some (map json_withdrawal data)\<rparr>))"

text \<open>
  \<^verbatim>\<open>loadFromLocalStorage(key, defaultValue)\<close>: the default when the key is absent,
  and otherwise what \<^verbatim>\<open>JSON.parse\<close> returns for the stored text, which never holds
  \<open>NaN\<close> or an infinity.
\<close>

definition loadFromLocalStorage_ITEMS :: "item list \<Rightarrow> state \<Rightarrow> item list" where
  "loadFromLocalStorage_ITEMS defaultValue st =
     (case items st of None \<Rightarrow> defaultValue | Some v \<Rightarrow> map json_item v)"

definition loadFromLocalStorage_CATEGORIES :: "string list \<Rightarrow> state \<Rightarrow> string list" where
  "loadFromLocalStorage_CATEGORIES defaultValue st =
     (case categories st of None \<Rightarrow> defaultValue | Some v \<Rightarrow> v)"

definition loadFromLocalStorage_WITHDRAWALS :: "withdrawal list \<Rightarrow> state \<Rightarrow> withdrawal list" where
  "loadFromLocalStorage_WITHDRAWALS defaultValue st =
     (case withdrawals st of None \<Rightarrow> defaultValue | Some v \<Rightarrow> map json_withdrawal v)"

text \<open>
  \<^verbatim>\<open>initializeStorage\<close>: the categories are seeded when none is stored. The other two
  keys are written only if what is loaded is not an array, which a list always is.
\<close>

definition initializeStorage :: "state \<Rightarrow> state" where
  "initializeStorage st =
     (if length (loadFromLocalStorage_CATEGORIES [] st) = 0
      then snd (saveToLocalStorage_CATEGORIES DEFAULT_CATEGORIES st)
      else st)"

section \<open>Item operations\<close>

text \<open>
  \<^verbatim>\<open>addItem(itemData)\<close>; \<open>t_id\<close> and \<open>t_date\<close> are the two readings of the clock
  (\<^verbatim>\<open>Date.now()\<close> for the identifier, \<^verbatim>\<open>new Date()\<close> for \<open>dateAdded\<close>).
\<close>

definition addItem :: "itemData \<Rightarrow> nat \<Rightarrow> int \<Rightarrow> state \<Rightarrow> item \<times> state" where
  "addItem itemData t_id t_date st =
     (let new_item = \<lparr>item_id = ''item_'' @ show_nat t_id,
                       name = d_name itemData,
                       category = d_category itemData,
                       quantity = Number (parseInt (d_quantity itemData)),
                       unitCost = Number (parseFloat (d_unitCost itemData)),
                       dateAdded = t_date,
                       description = (case d_description itemData of
                                        None \<Rightarrow> [] | Some s \<Rightarrow> s)\<rparr>;
          its = loadFromLocalStorage_ITEMS [] st;
          (saved, st') = saveToLocalStorage_ITEMS (its @ [new_item]) st
      in (new_item, st'))"

fun findIndex :: "('a \<Rightarrow> bool) \<Rightarrow> 'a list \<Rightarrow> nat option" where
  "findIndex p [] = None"
| "findIndex p (x # xs) =
     (if p x then Some 0 else map_option Suc (findIndex p xs))"

text \<open>
  The object \<^verbatim>\<open>{...old, ...updates, quantity: parseInt(updates.quantity), unitCost:
  parseFloat(updates.unitCost)}\<close>: a key of \<open>updates\<close> wins over the old one, and the two
  numeric keys are always written last.
\<close>

definition merge_item :: "item \<Rightarrow> updates \<Rightarrow> item" where
  "merge_item old upd =
     \<lparr>item_id = (case u_id upd of None \<Rightarrow> item_id old | Some v \<Rightarrow> v),
      name = (case u_name upd of None \<Rightarrow> name old | Some v \<Rightarrow> v),
      category = (case u_category upd of None \<Rightarrow> category old | Some v \<Rightarrow> v),
      quantity = Number (parseInt (u_quantity upd)),
      unitCost = Number (parseFloat (u_unitCost upd)),
      dateAdded = (case u_dateAdded upd of None \<Rightarrow> dateAdded old | Some v \<Rightarrow> v),
      description = (case u_description upd of None \<Rightarrow> description old | Some v \<Rightarrow> v)\<rparr>"

definition updateItem :: "string \<Rightarrow> updates \<Rightarrow> state \<Rightarrow> bool \<times> state" where
  "updateItem iid upd st =
     (let its = loadFromLocalStorage_ITEMS [] st in
      case findIndex (\<lambda>it. item_id it = iid) its of
        None \<Rightarrow> (False, st)
      | Some i \<Rightarrow>
          (let (saved, st') = saveToLocalStorage_ITEMS (its[i := merge_item (its ! i) upd]) st
           in (True, st')))"

definition deleteItem :: "string \<Rightarrow> state \<Rightarrow> bool \<times> state" where
  "deleteItem iid st =
     (let its = loadFromLocalStorage_ITEMS [] st;
          filteredItems = filter (\<lambda>it. item_id it \<noteq> iid) its
      in if length filteredItems = length its then (False, st)
         else (True, snd (saveToLocalStorage_ITEMS filteredItems st)))"

definition getItem :: "string \<Rightarrow> state \<Rightarrow> item option" where
  "getItem iid st = find (\<lambda>it. item_id it = iid) (loadFromLocalStorage_ITEMS [] st)"

definition getAllItems :: "state \<Rightarrow> item list" where
  "getAllItems st = loadFromLocalStorage_ITEMS [] st"

section \<open>Category operations\<close>

definition addCategory :: "string \<Rightarrow> state \<Rightarrow> bool \<times> state" where
  "addCategory categoryName st =
     (let cats = loadFromLocalStorage_CATEGORIES [] st in
      if list_ex (\<lambda>cat. toLowerCase cat = toLowerCase categoryName) cats then (False, st)
      else (True, snd (saveToLocalStorage_CATEGORIES (cats @ [categoryName]) st)))"

definition deleteCategory :: "string \<Rightarrow> state \<Rightarrow> bool \<times> state" where
  "deleteCategory categoryName st =
     (let its = getAllItems st;
          inUse = list_ex (\<lambda>it. category it = categoryName) its
      in if inUse then (False, showNotification CategoryInUse st)
         else
           (let cats = loadFromLocalStorage_CATEGORIES [] st;
                filteredCategories = filter (\<lambda>cat. cat \<noteq> categoryName) cats
            in if length filteredCategories = length cats then (False, st)
               else (True, snd (saveToLocalStorage_CATEGORIES filteredCategories st))))"

definition getAllCategories :: "state \<Rightarrow> string list" where
  "getAllCategories st = loadFromLocalStorage_CATEGORIES DEFAULT_CATEGORIES st"

section \<open>Withdrawal operations\<close>

text \<open>
  \<^verbatim>\<open>withdrawItem(withdrawalData)\<close>; \<open>t_id\<close> and \<open>t_date\<close> are the two readings of the
  clock. \<open>None\<close> is the \<^verbatim>\<open>null\<close> the function returns after a notification. The
  record is appended first; the stock is then written through \<^verbatim>\<open>updateItem\<close> with the
  object \<^verbatim>\<open>{...item, quantity: item.quantity - quantity}\<close>.
\<close>

definition withdrawItem :: "withdrawalData \<Rightarrow> nat \<Rightarrow> int \<Rightarrow> state \<Rightarrow> withdrawal option \<times> state" where
  "withdrawItem withdrawalData t_id t_date st =
     (case getItem (wd_itemId withdrawalData) st of
        None \<Rightarrow> (None, showNotification ItemNotFound st)
      | Some it \<Rightarrow>
          (let qty = parseInt (wd_quantity withdrawalData) in
           if js_gt qty (ToNumber (quantity it))
           then (None, showNotification (InsufficientStock (quantity it)) st)
           else
             (let total = js_mul qty (ToNumber (unitCost it));
                  w = \<lparr>w_id = ''withdraw_'' @ show_nat t_id,
                       itemId = item_id it,
                       itemName = name it,
                       w_category = category it,
                       w_quantity = Number qty,
                       w_unitCost = unitCost it,
                       totalCost = Number total,
                       date = t_date,
                       w_notes = (case wd_notes withdrawalData of
                                    None \<Rightarrow> [] | Some s \<Rightarrow> s)\<rparr>;
                  ws = loadFromLocalStorage_WITHDRAWALS [] st;
                  (saved, st1) = saveToLocalStorage_WITHDRAWALS (ws @ [w]) st;
                  (updated, st2) =
                    updateItem (item_id it)
                      \<lparr>u_id = Some (item_id it), u_name = Some (name it),
                       u_category = Some (category it),
                       u_quantity = Val (Number (js_sub (ToNumber (quantity it)) qty)),
                       u_unitCost = Val (unitCost it),
                       u_dateAdded = Some (dateAdded it),
                       u_description = Some (description it)\<rparr> st1
              in (Some w, st2))))"

definition getAllWithdrawals :: "state \<Rightarrow> withdrawal list" where
  "getAllWithdrawals st = loadFromLocalStorage_WITHDRAWALS [] st"

subsection \<open>Dates\<close>

text \<open>
  A \<^verbatim>\<open>Date\<close> is its time value, the milliseconds since the epoch in UTC; \<open>None\<close> is
  an Invalid Date. \<^verbatim>\<open>new Date(s)\<close> is modelled for the strings a date input yields, the
  date-only form \<^verbatim>\<open>YYYY-MM-DD\<close>, which denotes midnight UTC of that day; every other
  string counts as invalid here.
\<close>

definition days_from_civil :: "int \<Rightarrow> int \<Rightarrow> int \<Rightarrow> int" where
  "days_from_civil y m d =
     (let y' = (if m \<le> 2 then y - 1 else y);
          era = y' div 400;
          yoe = y' - era * 400;
          doy = (153 * (if m > 2 then m - 3 else m + 9) + 2) div 5 + d - 1;
          doe = yoe * 365 + yoe div 4 - yoe div 100 + doy
      in era * 146097 + doe - 719468)"

definition days_in_month :: "int \<Rightarrow> int \<Rightarrow> int" where
  "days_in_month y m =
     (if m = 2 then (if y mod 4 = 0 \<and> (y mod 100 \<noteq> 0 \<or> y mod 400 = 0) then 29 else 28)
      else if m \<in> {4, 6, 9, 11} then 30 else 31)"

definition Date_parse :: "string \<Rightarrow> int option" where
  "Date_parse s =
     (if length s = 10 \<and> s ! 4 = CHR ''-'' \<and> s ! 7 = CHR ''-''
         \<and> list_all is_digit (take 4 s) \<and> list_all is_digit (take 2 (drop 5 s))
         \<and> list_all is_digit (drop 8 s)
      then
        (let y = digits_value 10 (take 4 s);
             m = digits_value 10 (take 2 (drop 5 s));
             d = digits_value 10 (drop 8 s)
         in if 1 \<le> m \<and> m \<le> 12 \<and> 1 \<le> d \<and> d \<le> days_in_month y m
            then Some (days_from_civil y m d * 86400000) else None)
      else None)"

text \<open>
  \<^verbatim>\<open>d.setHours(h, m, s, ms)\<close> works in local time: it keeps the local calendar day of
  \<open>d\<close> and replaces the time of day. \<open>tz\<close> is the offset of local time from UTC in
  minutes, taken as constant (no daylight-saving change).
\<close>

definition setHours :: "int \<Rightarrow> int \<Rightarrow> int \<Rightarrow> int \<Rightarrow> int \<Rightarrow> int \<Rightarrow> int" where
  "setHours tz t h m s ms =
     (let local = t + tz * 60000;
          day = local div 86400000
      in day * 86400000 + ((h * 60 + m) * 60 + s) * 1000 + ms - tz * 60000)"

text \<open>A string argument is truthy unless it is missing or empty.\<close>

fun truthy :: "string option \<Rightarrow> bool" where
  "truthy None = False"
| "truthy (Some s) = (s \<noteq> [])"

text \<open>\<^verbatim>\<open>arg ? new Date(arg) : new Date(fallback)\<close>\<close>

definition date_or :: "string option \<Rightarrow> string \<Rightarrow> int option" where
  "date_or a fallback =
     (case a of None \<Rightarrow> Date_parse fallback
      | Some s \<Rightarrow> if s \<noteq> [] then Date_parse s else Date_parse fallback)"

definition getWithdrawalsByDateRange ::
    "int \<Rightarrow> string option \<Rightarrow> string option \<Rightarrow> state \<Rightarrow> withdrawal list" where
  "getWithdrawalsByDateRange tz startDate endDate st =
     filter (\<lambda>w.
        let wDate = date w;
            start = date_or startDate ''1970-01-01'';
            end0 = date_or endDate ''2100-12-31'';
            end1 = map_option (\<lambda>e. setHours tz e 23 59 59 999) end0
        in case (start, end1) of
             (Some s, Some e) \<Rightarrow> wDate \<ge> s \<and> wDate \<le> e
           | _ \<Rightarrow> False)
       (getAllWithdrawals st)"

definition getWithdrawalsByCategory :: "string \<Rightarrow> state \<Rightarrow> withdrawal list" where
  "getWithdrawalsByCategory cat st = filter (\<lambda>w. w_category w = cat) (getAllWithdrawals st)"

section \<open>Reports\<close>

text \<open>
  \<^verbatim>\<open>renderStatistics(withdrawals)\<close> writes either the message
  \<^verbatim>\<open>No data available for the selected filters.\<close> or the statistics cards. The cards are
  modelled by the four numbers computed for them (the most-withdrawn card is left out).
\<close>

record stats =
  totalWithdrawals :: nat
  s_totalCost :: jsnum
  totalQuantity :: jsnum
  avgCost :: jsnum

datatype statsGrid = NoData | Cards stats

definition renderStatistics :: "withdrawal list \<Rightarrow> statsGrid" where
  "renderStatistics ws =
     (if length ws = 0 then NoData
      else
        (let n = length ws;
             total = foldl (\<lambda>sum w. js_add sum (ToNumber (totalCost w))) (Fin 0) ws;
             qty = foldl (\<lambda>sum w. js_add sum (ToNumber (w_quantity w))) (Fin 0) ws;
             avg = js_div total (Fin (of_nat n))
         in Cards \<lparr>totalWithdrawals = n, s_totalCost = total, totalQuantity = qty,
                    avgCost = avg\<rparr>))"

record filters =
  f_startDate :: "string option"
  f_endDate :: "string option"
  f_category :: "string option"

definition generateReport :: "int \<Rightarrow> filters \<Rightarrow> state \<Rightarrow> statsGrid" where
  "generateReport tz fs st =
     (let ws = getAllWithdrawals st;
          ws1 = (if truthy (f_startDate fs) \<or> truthy (f_endDate fs)
                 then getWithdrawalsByDateRange tz (f_startDate fs) (f_endDate fs) st
                 else ws);
          ws2 = (case f_category fs of
                   None \<Rightarrow> ws1
                 | Some c \<Rightarrow> if c \<noteq> [] then filter (\<lambda>w. w_category w = c) ws1 else ws1)
      in renderStatistics ws2)"

section \<open>A sample inventory\<close>

text \<open>
  The scenario of the specification: one item \<^verbatim>\<open>Widget\<close> with quantity 10 and unit cost
  2.50, the seed categories and an empty withdrawal log.
\<close>

definition example_widget :: item where
  "example_widget = \<lparr>item_id = ''item_1'', name = ''Widget'', category = ''Tools'',
     quantity = Number (Fin 10), unitCost = Number (Fin (5 / 2)), dateAdded = 0,
     description = []\<rparr>"

definition example_state :: state where
  "example_state = \<lparr>items = Some [example_widget], categories = Some DEFAULT_CATEGORIES,
     withdrawals = Some [], storage_full = False, notifications = []\<rparr>"

definition example_request :: "string \<Rightarrow> withdrawalData" where
  "example_request q = \<lparr>wd_itemId = ''item_1'', wd_quantity = Str q, wd_notes = None\<rparr>"

definition example_patch :: updates where
  "example_patch = \<lparr>u_id = None, u_name = Some ''Gadget'', u_category = Some ''Tools'',
     u_quantity = Str ''4'', u_unitCost = Str ''3.5'', u_dateAdded = None,
     u_description = Some ''spare''\<rparr>"

definition example_orphan_state :: state where
  "example_orphan_state = example_state\<lparr>categories := Some [''Electronics'']\<rparr>"

definition example_withdrawal :: withdrawal where
  "example_withdrawal = \<lparr>w_id = ''withdraw_1'', itemId = ''item_1'', itemName = ''Widget'',
     w_category = ''Tools'', w_quantity = Number (Fin 3), w_unitCost = Number (Fin (5 / 2)),
     totalCost = Number (Fin (15 / 2)), date = 1705276800000, w_notes = []\<rparr>"

definition example_log_state :: state where
  "example_log_state = example_state\<lparr>withdrawals := Some [example_withdrawal]\<rparr>"

section \<open>Histories and invariants\<close>

text \<open>
  The operations that write to the store, and the state after a sequence of them.
  \<open>empty_storage\<close> is the browser before the first visit.
\<close>

datatype operation =
    InitializeStorage
  | AddItem itemData nat int
  | UpdateItem string updates
  | DeleteItem string
  | AddCategory string
  | DeleteCategory string
  | WithdrawItem withdrawalData nat int

fun perform :: "operation \<Rightarrow> state \<Rightarrow> state" where
  "perform InitializeStorage st = initializeStorage st"
| "perform (AddItem d t_id t_date) st = snd (addItem d t_id t_date st)"
| "perform (UpdateItem iid upd) st = snd (updateItem iid upd st)"
| "perform (DeleteItem iid) st = snd (deleteItem iid st)"
| "perform (AddCategory n) st = snd (addCategory n st)"
| "perform (DeleteCategory n) st = snd (deleteCategory n st)"
| "perform (WithdrawItem wd t_id t_date) st = snd (withdrawItem wd t_id t_date st)"

definition run :: "operation list \<Rightarrow> state \<Rightarrow> state" where
  "run ops st = foldl (\<lambda>s op. perform op s) st ops"

definition empty_storage :: "bool \<Rightarrow> state" where
  "empty_storage full = \<lparr>items = None, categories = None, withdrawals = None,
     storage_full = full, notifications = []\<rparr>"

definition categories_distinct :: "state \<Rightarrow> bool" where
  "categories_distinct st = distinct (map toLowerCase (loadFromLocalStorage_CATEGORIES [] st))"

text \<open>A stored quantity that is a non-negative integer (not \<^verbatim>\<open>null\<close>, not a fraction).\<close>

fun nonneg_integer :: "jsval \<Rightarrow> bool" where
  "nonneg_integer (Number (Fin r)) = (0 \<le> r \<and> of_int \<lfloor>r\<rfloor> = r)"
| "nonneg_integer _ = False"

definition quantities_ok :: "state \<Rightarrow> bool" where
  "quantities_ok st = list_all (\<lambda>it. nonneg_integer (quantity it)) (getAllItems st)"

text \<open>
  The object that the edit form's handler passes to \<^verbatim>\<open>updateItem\<close>, with the quantity
  field holding \<^verbatim>\<open>-3\<close>.
\<close>

definition example_edit :: updates where
  "example_edit = \<lparr>u_id = None, u_name = Some ''Widget'', u_category = Some ''Tools'',
     u_quantity = Str ''-3'', u_unitCost = Str ''2.5'', u_dateAdded = None,
     u_description = Some []\<rparr>"

text \<open>The sample inventory with the stock \<open>2^53 + 2\<close>, and with the stock \<open>10^21\<close>.\<close>

definition example_large_state :: state where
  "example_large_state =
     example_state\<lparr>items := Some [example_widget\<lparr>quantity := Number (Fin 9007199254740994)\<rparr>]\<rparr>"

definition example_huge_state :: state where
  "example_huge_state =
     example_state\<lparr>items :=
       Some [example_widget\<lparr>quantity := Number (Fin 1000000000000000000000)\<rparr>]\<rparr>"

section \<open>Basic facts\<close>

subsection \<open>Searching a list\<close>

lemma find_findIndex:
  "find p xs = Some x \<Longrightarrow> \<exists>i. findIndex p xs = Some i \<and> i < length xs \<and> xs ! i = x"
  by (induction xs) (auto split: if_splits)

lemma findIndex_find:
  "findIndex p xs = Some i \<Longrightarrow> i < length xs \<and> find p xs = Some (xs ! i)"
  by (induction xs arbitrary: i) (auto split: if_splits)

lemma findIndex_None: "findIndex p xs = None \<longleftrightarrow> find p xs = None"
  by (induction xs) auto

lemma find_update_at_index:
  "findIndex p xs = Some i \<Longrightarrow> p y \<Longrightarrow> find p (xs[i := y]) = Some y"
  by (induction xs arbitrary: i) (auto split: if_splits)

lemma find_map_same_key:
  "(\<And>x. p (f x) = p x) \<Longrightarrow> find p (map f xs) = map_option f (find p xs)"
  by (induction xs) auto

lemma length_filter_eq_iff:
  "length (filter P xs) = length xs \<longleftrightarrow> (\<forall>x \<in> set xs. P x)"
proof (induction xs)
  case Nil
  show ?case by simp
next
  case (Cons x xs)
  have le: "length (filter P xs) \<le> length xs" by (rule length_filter_le)
  show ?case
  proof (cases "P x")
    case True
    with Cons show ?thesis by simp
  next
    case False
    with le show ?thesis by (simp del: length_filter_le)
  qed
qed

lemma filter_length_eq_iff:
  "length (filter (\<lambda>c. c \<noteq> n) cs) = length cs \<longleftrightarrow> n \<notin> set cs"
  by (auto simp: length_filter_eq_iff)

subsection \<open>Rounding\<close>

lemma pow2_powi: "pow2 e = 2 powi e"
  by (simp add: pow2_def power_int_def inverse_eq_divide power_one_over)

lemma pow2_pos [simp]: "0 < pow2 e"
  by (simp add: pow2_powi)

lemma pow2_nonzero [simp]: "pow2 e \<noteq> 0"
  using pow2_pos [of e] by linarith

lemma pow2_add: "pow2 (a + b) = pow2 a * pow2 b"
  by (simp add: pow2_powi power_int_add)

lemma pow2_diff: "pow2 a / pow2 b = pow2 (a - b)"
  by (simp add: pow2_powi power_int_diff)

lemma pow2_less_iff [simp]: "pow2 a < pow2 b \<longleftrightarrow> a < b"
proof
  assume "pow2 a < pow2 b"
  show "a < b"
  proof (rule ccontr)
    assume "\<not> a < b"
    then have "b \<le> a" by simp
    then have "pow2 b \<le> pow2 a"
      unfolding pow2_powi by (intro power_int_increasing) simp_all
    with \<open>pow2 a < pow2 b\<close> show False by simp
  qed
next
  assume "a < b"
  then show "pow2 a < pow2 b"
    unfolding pow2_powi by (intro power_int_strict_increasing) simp_all
qed

lemma pow2_le_iff [simp]: "pow2 a \<le> pow2 b \<longleftrightarrow> a \<le> b"
  by (metis pow2_less_iff linorder_not_less)

lemma pow2_nat: "0 \<le> e \<Longrightarrow> pow2 e = 2 ^ nat e"
  by (simp add: pow2_def)

lemma bitlen_bracket:
  assumes "0 < n"
  shows "pow2 (bitlen n - 1) \<le> of_int n" and "of_int n < pow2 (bitlen n)"
proof -
  from assms have b: "1 \<le> bitlen n"
    by (simp add: bitlen_alt_def)
  from bitlen_bounds [OF assms] have lo: "2 ^ nat (bitlen n - 1) \<le> n" and hi: "n < 2 ^ nat (bitlen n)"
    by simp_all
  from lo have "(of_int (2 ^ nat (bitlen n - 1)) :: rat) \<le> of_int n"
    by (simp only: of_int_le_iff)
  then show "pow2 (bitlen n - 1) \<le> of_int n"
    using b by (simp add: pow2_nat)
  from hi have "(of_int n :: rat) < of_int (2 ^ nat (bitlen n))"
    by (simp only: of_int_less_iff)
  then show "of_int n < pow2 (bitlen n)"
    using b by (simp add: pow2_nat)
qed

lemma floor_log2_eq:
  assumes lo: "pow2 e \<le> a" and hi: "a < pow2 (e + 1)"
  shows "floor_log2 a = e"
proof -
  have apos: "0 < a" using lo pow2_pos [of e] by linarith
  obtain n d where q: "quotient_of a = (n, d)" by (cases "quotient_of a")
  have dpos: "0 < d" using q by (rule quotient_of_denom_pos)
  have a: "a = of_int n / of_int d" using q by (rule quotient_of_div)
  have npos: "0 < n"
    using apos dpos unfolding a by (simp add: zero_less_divide_iff)
  define e0 where "e0 = bitlen n - bitlen d"
  have d': "(0::rat) < of_int d" using dpos by simp
  have "pow2 (bitlen n - 1) / pow2 (bitlen d) < a"
  proof -
    have "pow2 (bitlen n - 1) / pow2 (bitlen d) \<le> of_int n / pow2 (bitlen d)"
      by (rule divide_right_mono [OF bitlen_bracket(1) [OF npos]]) (simp add: less_imp_le)
    also have "\<dots> < of_int n / of_int d"
      using bitlen_bracket(2) [OF dpos] npos d'
      by (intro divide_strict_left_mono) (simp_all add: mult_pos_pos)
    finally show ?thesis by (simp add: a)
  qed
  moreover have "pow2 (bitlen n - 1) / pow2 (bitlen d) = pow2 (e0 - 1)"
  proof -
    have "bitlen n - 1 - bitlen d = e0 - 1" by (simp add: e0_def)
    with pow2_diff [of "bitlen n - 1" "bitlen d"] show ?thesis by simp
  qed
  ultimately have l1: "pow2 (e0 - 1) < a" by simp
  have "a < pow2 (bitlen n) / pow2 (bitlen d - 1)"
  proof -
    have "of_int n / of_int d < pow2 (bitlen n) / of_int d"
      by (rule divide_strict_right_mono [OF bitlen_bracket(2) [OF npos] d'])
    also have "\<dots> \<le> pow2 (bitlen n) / pow2 (bitlen d - 1)"
      using bitlen_bracket(1) [OF dpos] d'
      by (intro divide_left_mono mult_pos_pos) (simp_all add: less_imp_le)
    finally show ?thesis by (simp add: a)
  qed
  moreover have "pow2 (bitlen n) / pow2 (bitlen d - 1) = pow2 (e0 + 1)"
  proof -
    have "bitlen n - (bitlen d - 1) = e0 + 1" by (simp add: e0_def)
    with pow2_diff [of "bitlen n" "bitlen d - 1"] show ?thesis by simp
  qed
  ultimately have l2: "a < pow2 (e0 + 1)" by simp
  from l1 hi have "pow2 (e0 - 1) < pow2 (e + 1)" by linarith
  then have u: "e0 \<le> e + 1" by simp
  from lo l2 have "pow2 e < pow2 (e0 + 1)" by linarith
  then have v: "e \<le> e0" by simp
  have fl: "floor_log2 a = (if pow2 e0 \<le> a then e0 else e0 - 1)"
    by (simp add: floor_log2_def q e0_def)
  show ?thesis
  proof (cases "pow2 e0 \<le> a")
    case True
    with hi have "pow2 e0 < pow2 (e + 1)" by linarith
    then have "e0 \<le> e" by simp
    with v True fl show ?thesis by simp
  next
    case False
    with lo have "pow2 e < pow2 e0" by linarith
    then have "e < e0" by simp
    with u False fl show ?thesis by simp
  qed
qed

lemma round_half_even_of_int [simp]: "round_half_even (of_int k) = k"
  by (simp add: round_half_even_def)

lemma round_half_even_tie:
  "round_half_even (of_int f + 1 / 2) = (if even f then f else f + 1)"
proof -
  have "\<lfloor>(of_int f :: rat) + 1 / 2\<rfloor> = f"
    by (simp add: floor_eq_iff)
  then show ?thesis
    by (simp add: round_half_even_def Let_def)
qed

lemma round_double_not_NaN [simp]: "round_double r \<noteq> NaN"
  by (simp add: round_double_def Let_def inf_of_sign_def)

lemma round_double_exact:
  assumes r: "r = of_int m * pow2 p" and m: "\<bar>m\<bar> < 2 ^ 53"
      and lo: "- 1074 \<le> p" and hi: "p \<le> 971"
  shows "round_double r = Fin r"
proof (cases "m = 0")
  case True
  with r show ?thesis by (simp add: round_double_def)
next
  case False
  define k where "k = \<bar>m\<bar>"
  have kpos: "0 < k" using False by (simp add: k_def)
  define a where "a = \<bar>r\<bar>"
  have a: "a = of_int k * pow2 p"
    by (simp add: a_def r k_def abs_mult abs_of_pos)
  have "pow2 p \<noteq> 0" using pow2_pos [of p] by linarith
  with False r have rnz: "r \<noteq> 0" by simp
  define b where "b = bitlen k"
  have b1: "1 \<le> b" using kpos by (simp add: b_def bitlen_alt_def)
  have b53: "b \<le> 53"
    using m by (simp add: b_def k_def bitlen_le_iff_power)
  define e where "e = b - 1 + p"
  have "pow2 (b - 1) * pow2 p \<le> of_int k * pow2 p"
    using bitlen_bracket(1) [OF kpos] by (simp add: b_def)
  then have l: "pow2 e \<le> a" by (simp add: e_def a pow2_add)
  have "of_int k * pow2 p < pow2 b * pow2 p"
    using bitlen_bracket(2) [OF kpos] by (simp add: b_def)
  then have u: "a < pow2 (e + 1)"
  proof -
    have "e + 1 = b + p" by (simp add: e_def)
    with \<open>of_int k * pow2 p < pow2 b * pow2 p\<close> show ?thesis
      by (simp add: a pow2_add)
  qed
  have fl: "floor_log2 a = e" using l u by (rule floor_log2_eq)
  define P where "P = max (e - 52) (- 1074)"
  have Pp: "P \<le> p" using b53 lo by (simp add: P_def e_def)
  have "pow2 p = pow2 (p - P) * pow2 P"
    using pow2_add [of "p - P" P] by simp
  moreover have "pow2 (p - P) = of_int (2 ^ nat (p - P))"
    using Pp by (simp add: pow2_nat)
  ultimately have split: "a = of_int (k * 2 ^ nat (p - P)) * pow2 P"
    by (simp add: a)
  then have quot: "a / pow2 P = of_int (k * 2 ^ nat (p - P))"
    using pow2_pos [of P] by simp
  have v: "of_int (round_half_even (a / pow2 P)) * pow2 P = a"
    unfolding quot round_half_even_of_int using split by simp
  have "e + 1 \<le> 1024" using b53 hi by (simp add: e_def)
  then have "pow2 (e + 1) \<le> pow2 1024" by simp
  with u have small: "\<not> pow2 1024 \<le> a" by linarith
  have "round_double r = Fin (if r > 0 then a else - a)"
    using rnz small v
    by (simp add: round_double_def Let_def a_def [symmetric] fl P_def [symmetric])
  also have "(if r > 0 then a else - a) = r"
    by (simp add: a_def)
  finally show ?thesis .
qed

lemma round_double_of_int:
  "\<bar>n\<bar> < 2 ^ 53 \<Longrightarrow> round_double (of_int n) = Fin (of_int n)"
  using round_double_exact [of "of_int n" n 0] by (simp add: pow2_def)

lemma round_double_half:
  "\<bar>n\<bar> < 2 ^ 53 \<Longrightarrow> round_double (of_int n / 2) = Fin (of_int n / 2)"
  using round_double_exact [of "of_int n / 2" n "- 1"] by (simp add: pow2_def)

lemma parseInt_number_of_int:
  "\<bar>n\<bar> < 10 ^ 21 \<Longrightarrow> parseInt_number (of_int n) = Fin (of_int n)"
proof (cases "n = 0")
  case True
  then show ?thesis by (simp add: parseInt_number_def)
next
  case False
  assume b: "\<bar>n\<bar> < 10 ^ 21"
  from False have "1 \<le> \<bar>n\<bar>" by simp
  then have "(1::rat) \<le> \<bar>of_int n\<bar>"
    by (metis of_int_1 of_int_abs of_int_le_iff)
  then have lo: "(1::rat) / 10 ^ 6 \<le> \<bar>of_int n\<bar>" by simp
  from b have "\<bar>of_int n :: rat\<bar> < of_int (10 ^ 21)"
    by (metis of_int_abs of_int_less_iff)
  then have hi: "\<bar>of_int n :: rat\<bar> < 10 ^ 21" by simp
  from False lo hi show ?thesis
    by (simp add: parseInt_number_def trunc_def del: of_int_abs)
qed

lemma js_sub_safe:
  "\<bar>a - b\<bar> < 2 ^ 53 \<Longrightarrow> js_sub (Fin (of_int a)) (Fin (of_int b)) = Fin (of_int (a - b))"
  using round_double_of_int [of "a - b"] by (simp add: js_sub_def)

lemma round_double_0 [simp]: "round_double 0 = Fin 0"
  by (simp add: round_double_def)

lemma round_double_numeral [simp]:
  "numeral n < (2::int) ^ 53 \<Longrightarrow> round_double (numeral n) = Fin (numeral n)"
  "numeral n < (2::int) ^ 53 \<Longrightarrow> round_double (- numeral n) = Fin (- numeral n)"
  "round_double 1 = Fin 1"
  using round_double_of_int [of "numeral n"] round_double_of_int [of "- numeral n"]
    round_double_of_int [of 1]
  by simp_all

lemma round_double_numeral_half [simp]:
  "numeral n < (2::int) ^ 53 \<Longrightarrow> round_double (numeral n / 2) = Fin (numeral n / 2)"
  "numeral n < (2::int) ^ 53 \<Longrightarrow> round_double (- (numeral n / 2)) = Fin (- (numeral n / 2))"
  using round_double_half [of "numeral n"] round_double_half [of "- numeral n"]
  by simp_all

lemma parseInt_number_numeral [simp]:
  "numeral n < (10::int) ^ 21 \<Longrightarrow> parseInt_number (numeral n) = Fin (numeral n)"
  "numeral n < (10::int) ^ 21 \<Longrightarrow> parseInt_number (- numeral n) = Fin (- numeral n)"
  "parseInt_number 0 = Fin 0"
  using parseInt_number_of_int [of "numeral n"] parseInt_number_of_int [of "- numeral n"]
    parseInt_number_of_int [of 0]
  by simp_all

lemma round_below_10_21: "round_double 999999999999999999999 = Fin 1000000000000000000000"
  by code_simp

lemma parseInt_number_10_21: "parseInt_number 1000000000000000000000 = Fin 1"
  by code_simp

lemma round_tie_at_2_53: "round_double 9007199254740993 = Fin 9007199254740992"
proof -
  have fl: "floor_log2 9007199254740993 = 53"
    by (rule floor_log2_eq) (simp_all add: pow2_def)
  have q: "(9007199254740993::rat) / pow2 1 = of_int 4503599627370496 + 1 / 2"
    by (simp add: pow2_def)
  have "round_half_even ((9007199254740993::rat) / pow2 1) = 4503599627370496"
    unfolding q round_half_even_tie by simp
  then show ?thesis
    using fl by (simp add: round_double_def Let_def) (simp add: pow2_def)
qed

subsection \<open>Numbers and JSON\<close>

lemma trunc_of_int [simp]: "trunc (of_int n) = n"
  by (simp add: trunc_def)

lemma trunc_numeral [simp]:
  "trunc (numeral n) = numeral n" "trunc (- numeral n) = - numeral n" "trunc 0 = 0" "trunc 1 = 1"
  by (simp_all add: trunc_def)

lemma json_idem [simp]: "json (json v) = json v"
  by (cases v rule: json.cases) simp_all

lemma json_item_idem [simp]: "json_item (json_item it) = json_item it"
  by (simp add: json_item_def)

lemma json_withdrawal_idem [simp]: "json_withdrawal (json_withdrawal w) = json_withdrawal w"
  by (simp add: json_withdrawal_def)

lemma json_item_comp [simp]: "json_item \<circ> json_item = json_item"
  by (rule ext) simp

lemma json_withdrawal_comp [simp]: "json_withdrawal \<circ> json_withdrawal = json_withdrawal"
  by (rule ext) simp

lemma item_id_json_item [simp]: "item_id (json_item it) = item_id it"
  by (simp add: json_item_def)

lemma json_item_fields:
  "json_item it = it \<Longrightarrow> json (quantity it) = quantity it \<and> json (unitCost it) = unitCost it"
  by (metis (no_types) item.select_convs(4,5) item.surjective item.update_convs(4,5) json_item_def)

subsection \<open>Reading the store\<close>

lemma map_json_loaded_items [simp]:
  "map json_item (loadFromLocalStorage_ITEMS [] st) = loadFromLocalStorage_ITEMS [] st"
  by (simp add: loadFromLocalStorage_ITEMS_def split: option.splits)

lemma map_json_loaded_withdrawals [simp]:
  "map json_withdrawal (loadFromLocalStorage_WITHDRAWALS [] st)
     = loadFromLocalStorage_WITHDRAWALS [] st"
  by (simp add: loadFromLocalStorage_WITHDRAWALS_def split: option.splits)

lemma loaded_items_json:
  "it \<in> set (loadFromLocalStorage_ITEMS [] st) \<Longrightarrow> json_item it = it"
  by (auto simp: loadFromLocalStorage_ITEMS_def split: option.splits)

lemma getItem_json: "getItem iid st = Some it \<Longrightarrow> json_item it = it"
  by (auto simp: getItem_def find_Some_iff intro!: loaded_items_json [of _ st])

lemma load_items_withdrawals_update [simp]:
  "loadFromLocalStorage_ITEMS d (st\<lparr>withdrawals := w\<rparr>) = loadFromLocalStorage_ITEMS d st"
  by (simp add: loadFromLocalStorage_ITEMS_def)

lemma load_items_items_update [simp]:
  "loadFromLocalStorage_ITEMS d (st\<lparr>items := Some v\<rparr>) = map json_item v"
  by (simp add: loadFromLocalStorage_ITEMS_def)

lemma load_withdrawals_items_update [simp]:
  "loadFromLocalStorage_WITHDRAWALS d (st\<lparr>items := v\<rparr>) = loadFromLocalStorage_WITHDRAWALS d st"
  by (simp add: loadFromLocalStorage_WITHDRAWALS_def)

lemma load_withdrawals_withdrawals_update [simp]:
  "loadFromLocalStorage_WITHDRAWALS d (st\<lparr>withdrawals := Some v\<rparr>) = map json_withdrawal v"
  by (simp add: loadFromLocalStorage_WITHDRAWALS_def)

lemma getItem_index:
  assumes "getItem iid st = Some old"
  shows "\<exists>i. findIndex (\<lambda>it. item_id it = iid) (loadFromLocalStorage_ITEMS [] st) = Some i
           \<and> i < length (loadFromLocalStorage_ITEMS [] st)
           \<and> loadFromLocalStorage_ITEMS [] st ! i = old \<and> item_id old = iid"
proof -
  from assms have f: "find (\<lambda>it. item_id it = iid) (loadFromLocalStorage_ITEMS [] st) = Some old"
    by (simp add: getItem_def)
  from find_findIndex [OF f] obtain i where
    i: "findIndex (\<lambda>it. item_id it = iid) (loadFromLocalStorage_ITEMS [] st) = Some i"
       "i < length (loadFromLocalStorage_ITEMS [] st)"
       "loadFromLocalStorage_ITEMS [] st ! i = old"
    by blast
  from f have "item_id old = iid"
    by (auto simp: find_Some_iff)
  with i show ?thesis by blast
qed

lemma updateItem_found:
  assumes "findIndex (\<lambda>it. item_id it = iid) (loadFromLocalStorage_ITEMS [] st) = Some i"
      and "\<not> storage_full st"
  shows "updateItem iid upd st =
           (True, st\<lparr>items := Some (map json_item
              ((loadFromLocalStorage_ITEMS [] st)
                 [i := merge_item (loadFromLocalStorage_ITEMS [] st ! i) upd]))\<rparr>)"
  using assms by (simp add: updateItem_def saveToLocalStorage_ITEMS_def Let_def)

lemma getAllItems_updated:
  "getAllItems (st\<lparr>items := Some (map json_item (xs[i := y]))\<rparr>)
     = (map json_item xs)[i := json_item y]"
  by (simp add: getAllItems_def map_update)

subsection \<open>The category registry\<close>

lemma saveItems_categories [simp]:
  "categories (snd (saveToLocalStorage_ITEMS d st)) = categories st"
  by (simp add: saveToLocalStorage_ITEMS_def showNotification_def)

lemma saveWithdrawals_categories [simp]:
  "categories (snd (saveToLocalStorage_WITHDRAWALS d st)) = categories st"
  by (simp add: saveToLocalStorage_WITHDRAWALS_def showNotification_def)

lemma addItem_categories: "categories (snd (addItem d t_id t_date st)) = categories st"
  by (simp add: addItem_def Let_def split: prod.split)
     (metis saveItems_categories snd_conv)

lemma updateItem_categories: "categories (snd (updateItem iid upd st)) = categories st"
  by (simp add: updateItem_def Let_def split: option.split prod.split)
     (metis saveItems_categories snd_conv)

lemma deleteItem_categories: "categories (snd (deleteItem iid st)) = categories st"
  by (simp add: deleteItem_def Let_def)

lemma withdrawItem_categories:
  "categories (snd (withdrawItem wd t_id t_date st)) = categories st"
proof (cases "getItem (wd_itemId wd) st")
  case None
  then show ?thesis by (simp add: withdrawItem_def showNotification_def)
next
  case (Some it)
  show ?thesis
  proof (cases "js_gt (parseInt (wd_quantity wd)) (ToNumber (quantity it))")
    case True
    with Some show ?thesis by (simp add: withdrawItem_def showNotification_def)
  next
    case False
    with Some show ?thesis
      by (simp add: withdrawItem_def Let_def split: prod.split)
         (metis saveWithdrawals_categories updateItem_categories snd_conv)
  qed
qed

lemma categories_distinct_cong:
  "categories st' = categories st \<Longrightarrow> categories_distinct st' = categories_distinct st"
  by (simp add: categories_distinct_def loadFromLocalStorage_CATEGORIES_def)

lemma seed_distinct: "distinct (map toLowerCase DEFAULT_CATEGORIES)"
  by code_simp

lemma addCategory_distinct:
  "categories_distinct st \<Longrightarrow> categories_distinct (snd (addCategory n st))"
  by (auto simp: addCategory_def categories_distinct_def Let_def list_ex_iff
      saveToLocalStorage_CATEGORIES_def showNotification_def loadFromLocalStorage_CATEGORIES_def
      split: option.splits)

lemma deleteCategory_distinct:
  "categories_distinct st \<Longrightarrow> categories_distinct (snd (deleteCategory n st))"
  by (auto simp: deleteCategory_def categories_distinct_def Let_def
      saveToLocalStorage_CATEGORIES_def showNotification_def loadFromLocalStorage_CATEGORIES_def
      distinct_map_filter split: option.splits)

lemma initializeStorage_distinct:
  "categories_distinct st \<Longrightarrow> categories_distinct (initializeStorage st)"
  by (auto simp: initializeStorage_def categories_distinct_def seed_distinct
      saveToLocalStorage_CATEGORIES_def showNotification_def loadFromLocalStorage_CATEGORIES_def
      split: option.splits)

lemma perform_distinct:
  "categories_distinct st \<Longrightarrow> categories_distinct (perform op st)"
  by (cases op)
     (simp_all add: initializeStorage_distinct addCategory_distinct deleteCategory_distinct
        categories_distinct_cong [OF addItem_categories]
        categories_distinct_cong [OF updateItem_categories]
        categories_distinct_cong [OF deleteItem_categories]
        categories_distinct_cong [OF withdrawItem_categories])

lemma run_distinct:
  "categories_distinct st \<Longrightarrow> categories_distinct (run ops st)"
  unfolding run_def
  by (induction ops arbitrary: st) (simp_all add: perform_distinct)

lemma empty_distinct: "categories_distinct (empty_storage full)"
  by (simp add: categories_distinct_def empty_storage_def loadFromLocalStorage_CATEGORIES_def)

subsection \<open>Items after a notification\<close>

lemma getAllItems_showNotification [simp]:
  "getAllItems (showNotification n st) = getAllItems st"
  by (simp add: getAllItems_def showNotification_def loadFromLocalStorage_ITEMS_def)

lemma getAllItems_saveWithdrawals [simp]:
  "getAllItems (snd (saveToLocalStorage_WITHDRAWALS ws st)) = getAllItems st"
  by (simp add: getAllItems_def showNotification_def loadFromLocalStorage_ITEMS_def
      saveToLocalStorage_WITHDRAWALS_def)

subsection \<open>Dates and sums\<close>

lemma Date_parse_epoch: "Date_parse ''1970-01-01'' = Some 0"
  by code_simp

lemma Date_parse_sentinel: "Date_parse ''2100-12-31'' = Some 4133894400000"
  by code_simp

lemma Date_parse_example: "Date_parse ''2024-01-15'' = Some 1705276800000"
  by code_simp

lemma setHours_end_of_day:
  "setHours tz e 23 59 59 999 = ((e + tz * 60000) div 86400000) * 86400000 + 86399999 - tz * 60000"
  by (simp add: setHours_def Let_def)

lemma setHours_widens: "e \<le> setHours tz e 23 59 59 999"
proof -
  define L where "L = e + tz * 60000"
  have "L mod 86400000 < 86400000" by simp
  moreover have "L = (L div 86400000) * 86400000 + L mod 86400000" by simp
  ultimately have "L \<le> (L div 86400000) * 86400000 + 86399999" by linarith
  then show ?thesis by (simp add: setHours_end_of_day L_def)
qed

lemma setHours_local_time:
  "(setHours tz e 23 59 59 999 + tz * 60000) mod 86400000 = 86399999"
  by (simp add: setHours_end_of_day)

lemma setHours_local_day:
  "(setHours tz e 23 59 59 999 + tz * 60000) div 86400000 = (e + tz * 60000) div 86400000"
  by (simp add: setHours_end_of_day)

lemma in_date_range_iff:
  "w \<in> set (getWithdrawalsByDateRange tz startDate endDate st)
     \<longleftrightarrow> w \<in> set (getAllWithdrawals st)
          \<and> (\<exists>s e. date_or startDate ''1970-01-01'' = Some s
                   \<and> date_or endDate ''2100-12-31'' = Some e
                   \<and> s \<le> date w \<and> date w \<le> setHours tz e 23 59 59 999)"
  by (auto simp: getWithdrawalsByDateRange_def Let_def split: option.splits)

lemma json_fixed_ToNumber: "json v = v \<Longrightarrow> \<exists>r. ToNumber v = Fin r"
  by (cases v rule: json.cases) simp_all

lemma js_add_finite_not_NaN: "s \<noteq> NaN \<Longrightarrow> js_add s (Fin r) \<noteq> NaN"
  by (cases s) simp_all

lemma sum_of_stored_not_NaN:
  "\<forall>w \<in> set ws. json (f w) = f w \<Longrightarrow> s \<noteq> NaN \<Longrightarrow>
     foldl (\<lambda>sum w. js_add sum (ToNumber (f w))) s ws \<noteq> NaN"
proof (induction ws arbitrary: s)
  case Nil
  then show ?case by simp
next
  case (Cons w ws)
  then obtain r where r: "ToNumber (f w) = Fin r"
    using json_fixed_ToNumber [of "f w"] by auto
  from Cons.prems(2) have "js_add s (Fin r) \<noteq> NaN"
    by (rule js_add_finite_not_NaN)
  with Cons.IH [of "js_add s (Fin r)"] Cons.prems(1) show ?case
    by (simp add: r)
qed

lemma js_div_count_not_NaN: "s \<noteq> NaN \<Longrightarrow> n \<noteq> 0 \<Longrightarrow> js_div s (Fin n) \<noteq> NaN"
  by (cases s) (simp_all add: inf_of_sign_def)

lemma date_range_of_empty_log:
  "getAllWithdrawals st = [] \<Longrightarrow> getWithdrawalsByDateRange tz a b st = []"
  by (simp add: getWithdrawalsByDateRange_def)

subsection \<open>The sample inventory, evaluated\<close>

lemmas parse_eval =
  parseInt_str_def parseFloat_str_def parse_exponent_def pow10_def is_space_def is_digit_def
  radix_digit_def digit_of_def digits_value_def

lemma example_getItem: "getItem ''item_1'' example_state = Some example_widget"
  by (simp add: getItem_def example_state_def example_widget_def
      loadFromLocalStorage_ITEMS_def json_item_def)

lemma parseInt_str_1: "parseInt_str ''1'' = Fin 1"
  by (simp add: parse_eval)

lemma parseInt_str_3: "parseInt_str ''3'' = Fin 3"
  by (simp add: parse_eval)

lemma parseInt_str_11: "parseInt_str ''11'' = Fin 11"
  by (simp add: parse_eval)

lemma parseInt_str_minus5: "parseInt_str ''-5'' = Fin (- 5)"
  by (simp add: parse_eval)

lemma show_nat_5: "show_nat 5 = ''5''"
  by code_simp

lemma parseInt_str_0: "parseInt_str ''0'' = Fin 0"
  by (simp add: parse_eval)

lemma parseInt_str_abc: "parseInt_str ''abc'' = NaN"
  by (simp add: parse_eval)

lemmas withdraw_eval =
  withdrawItem_def example_request_def example_getItem
  example_widget_def show_nat_5 Let_def saveToLocalStorage_WITHDRAWALS_def
  example_state_def updateItem_def saveToLocalStorage_ITEMS_def merge_item_def
  json_item_def json_withdrawal_def js_sub_def getItem_def getAllWithdrawals_def
  loadFromLocalStorage_ITEMS_def loadFromLocalStorage_WITHDRAWALS_def

lemma example_getAllItems: "getAllItems example_state = [example_widget]"
  by (simp add: getAllItems_def example_state_def example_widget_def
      loadFromLocalStorage_ITEMS_def json_item_def)

lemma example_categories:
  "loadFromLocalStorage_CATEGORIES [] example_state = DEFAULT_CATEGORIES"
  by (simp add: loadFromLocalStorage_CATEGORIES_def example_state_def)

lemma parseInt_str_4: "parseInt_str ''4'' = Fin 4"
  by (simp add: parse_eval)

lemma parseFloat_str_2_5: "parseFloat_str ''2.5'' = Fin (5 / 2)"
  by (simp add: parse_eval)

lemma parseFloat_str_3_5: "parseFloat_str ''3.5'' = Fin (7 / 2)"
  by (simp add: parse_eval)

lemma example_quantities_ok: "quantities_ok example_state"
  by (simp add: quantities_ok_def example_getAllItems example_widget_def)

lemma parseInt_str_minus3: "parseInt_str ''-3'' = Fin (- 3)"
  by (simp add: parse_eval)

lemma tools_matches: "toLowerCase ''Tools'' = toLowerCase ''tools''"
  by code_simp

lemma garden_is_new:
  "list_ex (\<lambda>c. toLowerCase c = toLowerCase ''Garden'') DEFAULT_CATEGORIES = False"
  by code_simp

section \<open>Withdrawals\<close>

text \<open>
  Claim C1, as amended. For an item with quantity \<open>Q \<le> 2^53\<close> and a request whose
  quantity parses to \<open>q\<close> with \<open>0 < q \<le> Q\<close>, \<^verbatim>\<open>withdrawItem\<close> succeeds while the
  store accepts writes: it returns the record, the item read back has quantity \<open>Q - q\<close>,
  and exactly one record is appended to the log, with the requested quantity and the
  item's unit cost at that moment. The total cost of the record is the product of \<open>q\<close>
  and that unit cost as a double; the log holds that number when it is finite and
  \<^verbatim>\<open>null\<close> when the product overflows.
\<close>

theorem withdraw_within_stock:
  assumes found: "getItem (wd_itemId wd) st = Some it"
      and stock: "quantity it = Number (Fin (of_int Q))"
      and req: "parseInt (wd_quantity wd) = Fin (of_int q)"
      and pos: "0 < q" and le: "q \<le> Q"
      and safe: "Q \<le> 2 ^ 53"
      and writable: "\<not> storage_full st"
  shows "\<exists>w st'. withdrawItem wd t_id t_date st = (Some w, st')
           \<and> map_option quantity (getItem (wd_itemId wd) st') = Some (Number (Fin (of_int (Q - q))))
           \<and> getAllWithdrawals st' = getAllWithdrawals st @ [json_withdrawal w]
           \<and> w_quantity (json_withdrawal w) = Number (Fin (of_int q))
           \<and> w_unitCost (json_withdrawal w) = unitCost it
           \<and> totalCost w = Number (js_mul (Fin (of_int q)) (ToNumber (unitCost it)))
           \<and> totalCost (json_withdrawal w)
               = json (Number (js_mul (Fin (of_int q)) (ToNumber (unitCost it))))"
proof -
  let ?its = "loadFromLocalStorage_ITEMS [] st"
  let ?p = "\<lambda>x. item_id x = wd_itemId wd"
  from getItem_index [OF found] obtain i where
    i: "findIndex ?p ?its = Some i" "i < length ?its" "?its ! i = it" "item_id it = wd_itemId wd"
    by blast
  have cost: "json (unitCost it) = unitCost it"
    using getItem_json [OF found] json_item_fields by blast
  define upd where "upd = \<lparr>u_id = Some (item_id it), u_name = Some (name it),
       u_category = Some (category it),
       u_quantity = Val (Number (js_sub (ToNumber (quantity it)) (Fin (of_int q)))),
       u_unitCost = Val (unitCost it),
       u_dateAdded = Some (dateAdded it),
       u_description = Some (description it)\<rparr>"
  define w where "w = \<lparr>w_id = ''withdraw_'' @ show_nat t_id,
                       itemId = item_id it,
                       itemName = name it,
                       w_category = category it,
                       w_quantity = Number (Fin (of_int q)),
                       w_unitCost = unitCost it,
                       totalCost = Number (js_mul (Fin (of_int q)) (ToNumber (unitCost it))),
                       date = t_date,
                       w_notes = (case wd_notes wd of None \<Rightarrow> [] | Some s \<Rightarrow> s)\<rparr>"
  define st1 where "st1 = st\<lparr>withdrawals := Some (map json_withdrawal
       (loadFromLocalStorage_WITHDRAWALS [] st @ [w]))\<rparr>"
  define st2 where "st2 = st1\<lparr>items := Some (map json_item (?its[i := merge_item it upd]))\<rparr>"
  have not_gt: "\<not> js_gt (Fin (of_int q)) (ToNumber (quantity it))"
    using le stock by simp
  have full1: "\<not> storage_full st1" using writable by (simp add: st1_def)
  have idx1: "findIndex (\<lambda>x. item_id x = item_id it) (loadFromLocalStorage_ITEMS [] st1) = Some i"
    using i by (simp add: st1_def)
  have upd_eq: "updateItem (item_id it) upd st1 = (True, st2)"
    using updateItem_found [OF idx1 full1, of upd] i by (simp add: st2_def st1_def)
  have "withdrawItem wd t_id t_date st = (Some w, snd (updateItem (item_id it) upd st1))"
    using found req not_gt writable
    by (simp add: withdrawItem_def Let_def saveToLocalStorage_WITHDRAWALS_def
        w_def upd_def st1_def split: prod.split)
  then have run: "withdrawItem wd t_id t_date st = (Some w, st2)"
    by (simp add: upd_eq)
  have "find ?p (?its[i := merge_item it upd]) = Some (merge_item it upd)"
    using i by (intro find_update_at_index) (simp_all add: merge_item_def upd_def)
  then have get2: "getItem (wd_itemId wd) st2 = Some (json_item (merge_item it upd))"
    by (simp add: getItem_def st2_def find_map_same_key)
  have bounds: "\<bar>Q - q\<bar> < 2 ^ 53" "\<bar>Q - q\<bar> < 10 ^ 21"
    using pos le safe by simp_all
  have sub: "js_sub (Fin (of_int Q)) (Fin (of_int q)) = Fin (of_int (Q - q))"
    using bounds(1) by (rule js_sub_safe)
  have reparse: "parseInt_number (of_int (Q - q)) = Fin (of_int (Q - q))"
    using bounds(2) by (rule parseInt_number_of_int)
  have qty2: "quantity (json_item (merge_item it upd)) = Number (Fin (of_int (Q - q)))"
    using stock by (simp add: json_item_def merge_item_def upd_def sub reparse del: of_int_diff)
  have log2: "getAllWithdrawals st2 = getAllWithdrawals st @ [json_withdrawal w]"
    by (simp add: getAllWithdrawals_def st2_def st1_def)
  have rec: "w_quantity (json_withdrawal w) = Number (Fin (of_int q))"
       "w_unitCost (json_withdrawal w) = unitCost it"
       "totalCost w = Number (js_mul (Fin (of_int q)) (ToNumber (unitCost it)))"
       "totalCost (json_withdrawal w)
          = json (Number (js_mul (Fin (of_int q)) (ToNumber (unitCost it))))"
    using cost by (simp_all add: json_withdrawal_def w_def)
  from run get2 qty2 log2 rec show ?thesis by simp
qed

theorem withdraw_within_stock_witness:
  "\<exists>w st'. withdrawItem (example_request ''3'') 5 6 example_state = (Some w, st')
     \<and> map_option quantity (getItem ''item_1'' st') = Some (Number (Fin 7))
     \<and> getAllWithdrawals st' = getAllWithdrawals example_state @ [json_withdrawal w]
     \<and> w_quantity (json_withdrawal w) = Number (Fin 3)
     \<and> w_unitCost (json_withdrawal w) = Number (Fin (5 / 2))
     \<and> totalCost w = Number (Fin (15 / 2))
     \<and> totalCost (json_withdrawal w) = Number (Fin (15 / 2))"
proof -
  have h1: "getItem (wd_itemId (example_request ''3'')) example_state = Some example_widget"
    by (simp add: example_request_def example_getItem)
  have h2: "quantity example_widget = Number (Fin (of_int 10))"
    by (simp add: example_widget_def)
  have h3: "parseInt (wd_quantity (example_request ''3'')) = Fin (of_int 3)"
    by (simp add: example_request_def parseInt_str_3)
  have h4: "(0::int) < 3" "(3::int) \<le> 10" "(10::int) \<le> 2 ^ 53" by simp_all
  have h5: "\<not> storage_full example_state" by (simp add: example_state_def)
  have u: "unitCost example_widget = Number (Fin (5 / 2))" by (simp add: example_widget_def)
  show ?thesis
    using withdraw_within_stock [OF h1 h2 h3 h4 h5, of 5 6]
    by (simp add: example_request_def u)
qed

text \<open>
  The claim as first stated, for every quantity \<open>Q\<close>, fails above \<open>2^53\<close>: with the stock
  \<open>2^53 + 2\<close> and the request \<^verbatim>\<open>"1"\<close> the difference \<open>2^53 + 1\<close> is not a double, the
  subtraction rounds it to \<open>2^53\<close>, and that is the quantity read back. With the stock
  \<open>10^21\<close> the subtraction gives \<open>10^21\<close> again, \<^verbatim>\<open>updateItem\<close> parses its text
  \<^verbatim>\<open>1e+21\<close>, and the quantity read back is 1.
\<close>

theorem withdraw_rounds_above_2_53_counterexample:
  "map_option quantity (getItem ''item_1'' example_large_state)
     = Some (Number (Fin 9007199254740994))
   \<and> parseInt (wd_quantity (example_request ''1'')) = Fin 1
   \<and> map_option quantity
        (getItem ''item_1'' (snd (withdrawItem (example_request ''1'') 5 6 example_large_state)))
       = Some (Number (Fin 9007199254740992))
   \<and> map_option quantity
        (getItem ''item_1'' (snd (withdrawItem (example_request ''1'') 5 6 example_large_state)))
       \<noteq> Some (Number (Fin (9007199254740994 - 1)))
   \<and> map_option quantity (getItem ''item_1'' example_huge_state)
       = Some (Number (Fin 1000000000000000000000))
   \<and> map_option quantity
        (getItem ''item_1'' (snd (withdrawItem (example_request ''1'') 5 6 example_huge_state)))
       = Some (Number (Fin 1))"
proof -
  have g: "getItem ''item_1'' example_large_state
      = Some (example_widget\<lparr>quantity := Number (Fin 9007199254740994)\<rparr>)"
    by (simp add: getItem_def example_large_state_def example_state_def example_widget_def
        loadFromLocalStorage_ITEMS_def json_item_def)
  have p: "parseInt (wd_quantity (example_request ''1'')) = Fin 1"
    by (simp add: example_request_def parseInt_str_1)
  have after: "map_option quantity
        (getItem ''item_1'' (snd (withdrawItem (example_request ''1'') 5 6 example_large_state)))
       = Some (Number (Fin 9007199254740992))"
    by (simp add: withdrawItem_def example_request_def g parseInt_str_1
      example_widget_def Let_def saveToLocalStorage_WITHDRAWALS_def
      example_large_state_def example_state_def updateItem_def saveToLocalStorage_ITEMS_def
      merge_item_def json_item_def js_sub_def getItem_def
      loadFromLocalStorage_ITEMS_def round_tie_at_2_53)
  have g': "getItem ''item_1'' example_huge_state
      = Some (example_widget\<lparr>quantity := Number (Fin 1000000000000000000000)\<rparr>)"
    by (simp add: getItem_def example_huge_state_def example_state_def example_widget_def
        loadFromLocalStorage_ITEMS_def json_item_def)
  have after': "map_option quantity
        (getItem ''item_1'' (snd (withdrawItem (example_request ''1'') 5 6 example_huge_state)))
       = Some (Number (Fin 1))"
    by (simp add: withdrawItem_def example_request_def g' parseInt_str_1
      example_widget_def Let_def saveToLocalStorage_WITHDRAWALS_def
      example_huge_state_def example_state_def updateItem_def saveToLocalStorage_ITEMS_def
      merge_item_def json_item_def js_sub_def getItem_def
      loadFromLocalStorage_ITEMS_def round_below_10_21 parseInt_number_10_21)
  show ?thesis
    unfolding after after' using g g' p by simp
qed

text \<open>
  Claim C2. For an item with quantity \<open>Q\<close>, a request whose quantity parses to \<open>q > Q\<close>
  is refused: \<^verbatim>\<open>withdrawItem\<close> returns \<^verbatim>\<open>null\<close> after the notification
  \<^verbatim>\<open>Insufficient stock. Available: Q\<close>, and the item, the item collection and the
  withdrawal log are what they were.
\<close>

theorem withdraw_beyond_stock:
  assumes found: "getItem (wd_itemId wd) st = Some it"
      and stock: "quantity it = Number (Fin Q)"
      and req: "parseInt (wd_quantity wd) = Fin q"
      and gt: "q > Q"
  shows "withdrawItem wd t_id t_date st
           = (None, showNotification (InsufficientStock (Number (Fin Q))) st)
         \<and> getItem (wd_itemId wd) (snd (withdrawItem wd t_id t_date st)) = Some it
         \<and> getAllItems (snd (withdrawItem wd t_id t_date st)) = getAllItems st
         \<and> getAllWithdrawals (snd (withdrawItem wd t_id t_date st)) = getAllWithdrawals st"
proof -
  have run: "withdrawItem wd t_id t_date st
           = (None, showNotification (InsufficientStock (Number (Fin Q))) st)"
    using found stock req gt by (simp add: withdrawItem_def)
  show ?thesis
    using found unfolding run
    by (simp add: showNotification_def getItem_def getAllItems_def getAllWithdrawals_def
        loadFromLocalStorage_ITEMS_def loadFromLocalStorage_WITHDRAWALS_def)
qed

theorem withdraw_beyond_stock_witness:
  "withdrawItem (example_request ''11'') 5 6 example_state
     = (None, showNotification (InsufficientStock (Number (Fin 10))) example_state)
   \<and> getItem ''item_1'' (snd (withdrawItem (example_request ''11'') 5 6 example_state))
       = Some example_widget
   \<and> getAllItems (snd (withdrawItem (example_request ''11'') 5 6 example_state))
       = getAllItems example_state
   \<and> getAllWithdrawals (snd (withdrawItem (example_request ''11'') 5 6 example_state))
       = getAllWithdrawals example_state"
proof -
  have h1: "getItem (wd_itemId (example_request ''11'')) example_state = Some example_widget"
    by (simp add: example_request_def example_getItem)
  have h2: "quantity example_widget = Number (Fin 10)"
    by (simp add: example_widget_def)
  have h3: "parseInt (wd_quantity (example_request ''11'')) = Fin 11"
    by (simp add: example_request_def parseInt_str_11)
  have h4: "(11::rat) > 10" by simp
  have sel: "wd_itemId (example_request ''11'') = ''item_1''"
    by (simp add: example_request_def)
  show ?thesis
    using withdraw_beyond_stock [OF h1 h2 h3 h4, of 5 6] unfolding sel .
qed

text \<open>
  Claim C3. \<^verbatim>\<open>withdrawItem\<close> checks the requested quantity against the stock from above
  only. On the sample inventory (quantity 10) the request \<^verbatim>\<open>"-5"\<close> is not refused: a
  record with quantity \<open>-5\<close> and total cost \<open>-12.5\<close> is appended and the stock grows to
  15. The request \<^verbatim>\<open>"0"\<close> appends a record with quantity 0, and the request
  \<^verbatim>\<open>"abc"\<close> appends a record whose quantity is stored as \<^verbatim>\<open>null\<close> and leaves the
  item with the quantity \<^verbatim>\<open>null\<close>.
\<close>

theorem withdraw_negative_quantity_accepted:
  "fst (withdrawItem (example_request ''-5'') 5 6 example_state)
     = Some \<lparr>w_id = ''withdraw_5'', itemId = ''item_1'', itemName = ''Widget'',
             w_category = ''Tools'', w_quantity = Number (Fin (- 5)),
             w_unitCost = Number (Fin (5 / 2)), totalCost = Number (Fin (- (25 / 2))),
             date = 6, w_notes = []\<rparr>
   \<and> map_option quantity
        (getItem ''item_1'' (snd (withdrawItem (example_request ''-5'') 5 6 example_state)))
       = Some (Number (Fin 15))
   \<and> map w_quantity
        (getAllWithdrawals (snd (withdrawItem (example_request ''-5'') 5 6 example_state)))
       = [Number (Fin (- 5))]
   \<and> map w_quantity
        (getAllWithdrawals (snd (withdrawItem (example_request ''0'') 5 6 example_state)))
       = [Number (Fin 0)]
   \<and> map w_quantity
        (getAllWithdrawals (snd (withdrawItem (example_request ''abc'') 5 6 example_state)))
       = [Null]
   \<and> map_option quantity
        (getItem ''item_1'' (snd (withdrawItem (example_request ''abc'') 5 6 example_state)))
       = Some Null"
proof (intro conjI)
  show "fst (withdrawItem (example_request ''-5'') 5 6 example_state)
     = Some \<lparr>w_id = ''withdraw_5'', itemId = ''item_1'', itemName = ''Widget'',
             w_category = ''Tools'', w_quantity = Number (Fin (- 5)),
             w_unitCost = Number (Fin (5 / 2)), totalCost = Number (Fin (- (25 / 2))),
             date = 6, w_notes = []\<rparr>"
    by (simp add: withdraw_eval parseInt_str_minus5)
  show "map_option quantity
        (getItem ''item_1'' (snd (withdrawItem (example_request ''-5'') 5 6 example_state)))
       = Some (Number (Fin 15))"
    by (simp add: withdraw_eval parseInt_str_minus5)
  show "map w_quantity
        (getAllWithdrawals (snd (withdrawItem (example_request ''-5'') 5 6 example_state)))
       = [Number (Fin (- 5))]"
    by (simp add: withdraw_eval parseInt_str_minus5)
  show "map w_quantity
        (getAllWithdrawals (snd (withdrawItem (example_request ''0'') 5 6 example_state)))
       = [Number (Fin 0)]"
    by (simp add: withdraw_eval parseInt_str_0)
  show "map w_quantity
        (getAllWithdrawals (snd (withdrawItem (example_request ''abc'') 5 6 example_state)))
       = [Null]"
    by (simp add: withdraw_eval parseInt_str_abc)
  show "map_option quantity
        (getItem ''item_1'' (snd (withdrawItem (example_request ''abc'') 5 6 example_state)))
       = Some Null"
    by (simp add: withdraw_eval parseInt_str_abc)
qed

section \<open>Categories\<close>

text \<open>
  Claim C5. \<^verbatim>\<open>deleteCategory\<close> is blocked exactly when some item's category is the given
  name, character for character: it then shows the category-in-use notification, returns
  \<^verbatim>\<open>false\<close> and changes nothing else. Otherwise it removes the entries equal to the name
  and returns \<^verbatim>\<open>true\<close> (the store accepting the write), or returns \<^verbatim>\<open>false\<close> with the
  state untouched when the registry has no such entry.
\<close>

theorem deleteCategory_blocked_iff_in_use:
  "((\<exists>it \<in> set (getAllItems st). category it = n) \<longrightarrow>
      deleteCategory n st = (False, showNotification CategoryInUse st))
   \<and> (\<not> (\<exists>it \<in> set (getAllItems st). category it = n)
        \<and> n \<in> set (loadFromLocalStorage_CATEGORIES [] st) \<and> \<not> storage_full st \<longrightarrow>
      deleteCategory n st
        = (True, st\<lparr>categories :=
             Some (filter (\<lambda>c. c \<noteq> n) (loadFromLocalStorage_CATEGORIES [] st))\<rparr>))
   \<and> (\<not> (\<exists>it \<in> set (getAllItems st). category it = n)
        \<and> n \<notin> set (loadFromLocalStorage_CATEGORIES [] st) \<longrightarrow>
      deleteCategory n st = (False, st))
   \<and> (notifications (snd (deleteCategory n st)) = notifications st @ [CategoryInUse]
        \<longleftrightarrow> (\<exists>it \<in> set (getAllItems st). category it = n))"
  by (simp add: deleteCategory_def list_ex_iff Let_def filter_length_eq_iff
      saveToLocalStorage_CATEGORIES_def showNotification_def)

theorem deleteCategory_blocked_iff_in_use_witness:
  "deleteCategory ''Tools'' example_state
     = (False, showNotification CategoryInUse example_state)
   \<and> deleteCategory ''Electronics'' example_state
     = (True, example_state\<lparr>categories := Some [''Office Supplies'', ''Tools'', ''Uncategorized'']\<rparr>)
   \<and> deleteCategory ''Garden'' example_state = (False, example_state)"
  using deleteCategory_blocked_iff_in_use [of example_state "''Tools''"]
    deleteCategory_blocked_iff_in_use [of example_state "''Electronics''"]
    deleteCategory_blocked_iff_in_use [of example_state "''Garden''"]
  by (simp add: example_getAllItems example_categories DEFAULT_CATEGORIES_def
      example_widget_def) (simp add: example_state_def)

text \<open>
  Claim C10. The in-use check comes first: for a name that the registry does not hold but
  that is the category of some item, \<^verbatim>\<open>deleteCategory\<close> shows the category-in-use
  notification and returns \<^verbatim>\<open>false\<close>, and the registry is untouched.
\<close>

theorem deleteCategory_in_use_before_not_found:
  assumes "n \<notin> set (loadFromLocalStorage_CATEGORIES [] st)"
      and "it \<in> set (getAllItems st)" and "category it = n"
  shows "deleteCategory n st = (False, showNotification CategoryInUse st)
         \<and> categories (snd (deleteCategory n st)) = categories st"
  using assms by (auto simp: deleteCategory_def list_ex_iff showNotification_def)

theorem deleteCategory_in_use_before_not_found_witness:
  "deleteCategory ''Tools'' example_orphan_state
     = (False, showNotification CategoryInUse example_orphan_state)
   \<and> categories (snd (deleteCategory ''Tools'' example_orphan_state)) = Some [''Electronics'']"
proof -
  have h1: "''Tools'' \<notin> set (loadFromLocalStorage_CATEGORIES [] example_orphan_state)"
    by (simp add: loadFromLocalStorage_CATEGORIES_def example_orphan_state_def)
  have h2: "example_widget \<in> set (getAllItems example_orphan_state)"
    by (simp add: getAllItems_def example_orphan_state_def example_state_def
        example_widget_def loadFromLocalStorage_ITEMS_def json_item_def)
  have h3: "category example_widget = ''Tools''"
    by (simp add: example_widget_def)
  have c: "categories example_orphan_state = Some [''Electronics'']"
    by (simp add: example_orphan_state_def)
  show ?thesis
    using deleteCategory_in_use_before_not_found [OF h1 h2 h3] unfolding c .
qed

section \<open>Item update\<close>

text \<open>
  Claim C9. \<^verbatim>\<open>updateItem\<close> returns \<^verbatim>\<open>false\<close> and changes nothing when no item has the
  given identifier. Otherwise (the store accepting the write) it replaces the first item
  with that identifier by the merged record and leaves the other items, the categories
  and the withdrawals as they were. In the merged record every key that the patch lacks
  keeps its old value, in particular the identifier and the creation date, a key that the
  patch has takes the patch's value, and quantity and unit cost are always parsed from the
  patch (\<^verbatim>\<open>null\<close> is stored when the patch gives no number).
\<close>

theorem updateItem_merges_patch:
  "(getItem iid st = None \<longrightarrow> updateItem iid upd st = (False, st))
   \<and> (\<forall>old. getItem iid st = Some old \<and> \<not> storage_full st \<longrightarrow>
         (\<exists>i st'. updateItem iid upd st = (True, st')
            \<and> findIndex (\<lambda>it. item_id it = iid) (getAllItems st) = Some i
            \<and> getAllItems st ! i = old
            \<and> getAllItems st' = (getAllItems st)[i := json_item (merge_item old upd)]
            \<and> getItem (item_id (merge_item old upd)) st' \<noteq> None
            \<and> categories st' = categories st \<and> withdrawals st' = withdrawals st)
         \<and> (u_id upd = None \<longrightarrow> item_id (json_item (merge_item old upd)) = item_id old)
         \<and> (u_dateAdded upd = None \<longrightarrow>
               dateAdded (json_item (merge_item old upd)) = dateAdded old)
         \<and> (u_name upd = None \<longrightarrow> name (json_item (merge_item old upd)) = name old)
         \<and> (u_category upd = None \<longrightarrow>
               category (json_item (merge_item old upd)) = category old)
         \<and> (u_description upd = None \<longrightarrow>
               description (json_item (merge_item old upd)) = description old)
         \<and> (\<forall>v. u_id upd = Some v \<longrightarrow> item_id (json_item (merge_item old upd)) = v)
         \<and> (\<forall>v. u_dateAdded upd = Some v \<longrightarrow> dateAdded (json_item (merge_item old upd)) = v)
         \<and> (\<forall>v. u_name upd = Some v \<longrightarrow> name (json_item (merge_item old upd)) = v)
         \<and> (\<forall>v. u_category upd = Some v \<longrightarrow> category (json_item (merge_item old upd)) = v)
         \<and> (\<forall>v. u_description upd = Some v \<longrightarrow>
               description (json_item (merge_item old upd)) = v)
         \<and> quantity (json_item (merge_item old upd)) = json (Number (parseInt (u_quantity upd)))
         \<and> unitCost (json_item (merge_item old upd))
              = json (Number (parseFloat (u_unitCost upd))))"
proof (intro conjI allI impI)
  assume "getItem iid st = None"
  then show "updateItem iid upd st = (False, st)"
    by (simp add: updateItem_def getItem_def findIndex_None [symmetric])
next
  fix old
  assume a: "getItem iid st = Some old \<and> \<not> storage_full st"
  let ?its = "loadFromLocalStorage_ITEMS [] st"
  from a getItem_index [of iid st old] obtain i where
    i: "findIndex (\<lambda>it. item_id it = iid) ?its = Some i" "i < length ?its" "?its ! i = old"
    by blast
  define st' where "st' = st\<lparr>items := Some (map json_item (?its[i := merge_item old upd]))\<rparr>"
  have run: "updateItem iid upd st = (True, st')"
    using updateItem_found [OF i(1), of upd] a i(3) by (simp add: st'_def)
  have all': "getAllItems st' = (getAllItems st)[i := json_item (merge_item old upd)]"
    by (simp add: st'_def getAllItems_updated) (simp add: getAllItems_def)
  have il: "i < length (getAllItems st)" "getAllItems st ! i = old"
    "findIndex (\<lambda>it. item_id it = iid) (getAllItems st) = Some i"
    using i by (simp_all add: getAllItems_def)
  have "json_item (merge_item old upd) \<in> set (getAllItems st')"
    unfolding all' using il(1) by (rule set_update_memI)
  then have "find (\<lambda>it. item_id it = item_id (merge_item old upd)) (getAllItems st') \<noteq> None"
    by (auto simp: find_None_iff)
  then have get': "getItem (item_id (merge_item old upd)) st' \<noteq> None"
    by (simp add: getItem_def getAllItems_def)
  have frame: "categories st' = categories st" "withdrawals st' = withdrawals st"
    by (simp_all add: st'_def)
  from run il all' get' frame
  show "\<exists>i st'. updateItem iid upd st = (True, st')
            \<and> findIndex (\<lambda>it. item_id it = iid) (getAllItems st) = Some i
            \<and> getAllItems st ! i = old
            \<and> getAllItems st' = (getAllItems st)[i := json_item (merge_item old upd)]
            \<and> getItem (item_id (merge_item old upd)) st' \<noteq> None
            \<and> categories st' = categories st \<and> withdrawals st' = withdrawals st"
    by blast
qed (simp_all add: json_item_def merge_item_def)

theorem updateItem_merges_patch_witness:
  "updateItem ''item_9'' example_patch example_state = (False, example_state)
   \<and> (\<exists>st'. updateItem ''item_1'' example_patch example_state = (True, st')
         \<and> getAllItems st'
            = [\<lparr>item_id = ''item_1'', name = ''Gadget'', category = ''Tools'',
                quantity = Number (Fin 4), unitCost = Number (Fin (7 / 2)), dateAdded = 0,
                description = ''spare''\<rparr>])"
proof -
  have h0: "getItem ''item_9'' example_state = None"
    by (simp add: getItem_def example_state_def example_widget_def
      loadFromLocalStorage_ITEMS_def json_item_def)
  have h1: "getItem ''item_1'' example_state = Some example_widget \<and> \<not> storage_full example_state"
    by (simp add: example_getItem) (simp add: example_state_def)
  have m: "json_item (merge_item example_widget example_patch)
      = \<lparr>item_id = ''item_1'', name = ''Gadget'', category = ''Tools'',
                quantity = Number (Fin 4), unitCost = Number (Fin (7 / 2)), dateAdded = 0,
                description = ''spare''\<rparr>"
    by (simp add: json_item_def merge_item_def example_patch_def example_widget_def
        parseInt_str_4 parseFloat_str_3_5)
  from updateItem_merges_patch [of "''item_9''" example_state example_patch] h0
  have a: "updateItem ''item_9'' example_patch example_state = (False, example_state)"
    by blast
  from updateItem_merges_patch [of "''item_1''" example_state example_patch] h1
  obtain i st' where b: "updateItem ''item_1'' example_patch example_state = (True, st')"
     "findIndex (\<lambda>it. item_id it = ''item_1'') (getAllItems example_state) = Some i"
     "getAllItems st' = (getAllItems example_state)
          [i := json_item (merge_item example_widget example_patch)]"
    by blast
  from b(2) have "i = 0"
    by (simp add: example_getAllItems example_widget_def)
  with b(3) have "getAllItems st' = [json_item (merge_item example_widget example_patch)]"
    by (simp add: example_getAllItems)
  with a b(1) m show ?thesis by simp
qed

section \<open>The registry holds no two names equal ignoring case\<close>

text \<open>
  Claim C6. \<^verbatim>\<open>addCategory\<close> returns \<^verbatim>\<open>false\<close>, and then changes nothing, exactly when
  an entry of the registry equals the given name after \<^verbatim>\<open>toLowerCase\<close> on both;
  otherwise it appends the name (the store accepting the write). The registry that
  \<^verbatim>\<open>initializeStorage\<close> seeds is the default list; it has no two names equal ignoring
  case, every operation keeps that property, and so it holds after any sequence of
  operations from the seeded store.
\<close>

theorem categories_distinct_ignoring_case:
  "(fst (addCategory n st) = False
      \<longleftrightarrow> (\<exists>c \<in> set (loadFromLocalStorage_CATEGORIES [] st). toLowerCase c = toLowerCase n))
   \<and> (fst (addCategory n st) = False \<longrightarrow> snd (addCategory n st) = st)
   \<and> (fst (addCategory n st) = True \<and> \<not> storage_full st \<longrightarrow>
        loadFromLocalStorage_CATEGORIES [] (snd (addCategory n st))
          = loadFromLocalStorage_CATEGORIES [] st @ [n])
   \<and> loadFromLocalStorage_CATEGORIES [] (initializeStorage (empty_storage False))
        = DEFAULT_CATEGORIES
   \<and> categories_distinct (initializeStorage (empty_storage full))
   \<and> (categories_distinct st \<longrightarrow> categories_distinct (perform op st))
   \<and> categories_distinct (run ops (initializeStorage (empty_storage full)))"
proof (intro conjI impI)
  show "fst (addCategory n st) = False
      \<longleftrightarrow> (\<exists>c \<in> set (loadFromLocalStorage_CATEGORIES [] st). toLowerCase c = toLowerCase n)"
    by (simp add: addCategory_def Let_def list_ex_iff)
  show "snd (addCategory n st) = st" if "fst (addCategory n st) = False"
    using that by (simp add: addCategory_def Let_def split: if_splits)
  show "loadFromLocalStorage_CATEGORIES [] (snd (addCategory n st))
          = loadFromLocalStorage_CATEGORIES [] st @ [n]"
    if "fst (addCategory n st) = True \<and> \<not> storage_full st"
    using that by (simp add: addCategory_def Let_def saveToLocalStorage_CATEGORIES_def
        loadFromLocalStorage_CATEGORIES_def split: if_splits)
  show "loadFromLocalStorage_CATEGORIES [] (initializeStorage (empty_storage False))
        = DEFAULT_CATEGORIES"
    by (simp add: initializeStorage_def empty_storage_def saveToLocalStorage_CATEGORIES_def
        loadFromLocalStorage_CATEGORIES_def)
  show seed: "categories_distinct (initializeStorage (empty_storage full))"
    by (rule initializeStorage_distinct [OF empty_distinct])
  show "categories_distinct (perform op st)" if "categories_distinct st"
    using that by (rule perform_distinct)
  show "categories_distinct (run ops (initializeStorage (empty_storage full)))"
    by (rule run_distinct [OF seed])
qed

theorem categories_distinct_ignoring_case_witness:
  "fst (addCategory ''tools'' example_state) = False
   \<and> snd (addCategory ''tools'' example_state) = example_state
   \<and> fst (addCategory ''Garden'' example_state) = True
   \<and> loadFromLocalStorage_CATEGORIES [] (snd (addCategory ''Garden'' example_state))
       = DEFAULT_CATEGORIES @ [''Garden'']
   \<and> categories_distinct (perform (AddCategory ''Garden'') example_state)
   \<and> categories_distinct
        (run [AddCategory ''Garden'', AddCategory ''GARDEN'', DeleteCategory ''Tools'']
           (initializeStorage (empty_storage False)))"
proof -
  have h1: "\<exists>c \<in> set (loadFromLocalStorage_CATEGORIES [] example_state).
              toLowerCase c = toLowerCase ''tools''"
    using tools_matches by (simp add: example_categories DEFAULT_CATEGORIES_def)
  have h2: "\<not> (\<exists>c \<in> set (loadFromLocalStorage_CATEGORIES [] example_state).
              toLowerCase c = toLowerCase ''Garden'')"
    using garden_is_new by (simp add: example_categories list_ex_iff)
  have h3: "\<not> storage_full example_state"
    by (simp add: example_state_def)
  have h4: "categories_distinct example_state"
    using seed_distinct by (simp add: categories_distinct_def example_categories)
  note a = categories_distinct_ignoring_case
             [of "''tools''" example_state False "AddCategory ''Garden''"
                 "[AddCategory ''Garden'', AddCategory ''GARDEN'', DeleteCategory ''Tools'']"]
  note b = categories_distinct_ignoring_case
             [of "''Garden''" example_state False "AddCategory ''Garden''" "[]"]
  from a h1 have 1: "fst (addCategory ''tools'' example_state) = False" by blast
  with a have 2: "snd (addCategory ''tools'' example_state) = example_state" by blast
  from b h2 have 3: "fst (addCategory ''Garden'' example_state) = True" by simp
  with b h3 have 4: "loadFromLocalStorage_CATEGORIES [] (snd (addCategory ''Garden'' example_state))
       = DEFAULT_CATEGORIES @ [''Garden'']"
    by (simp add: example_categories)
  from a h4 have 5: "categories_distinct (perform (AddCategory ''Garden'') example_state)"
    by blast
  from a have 6: "categories_distinct
        (run [AddCategory ''Garden'', AddCategory ''GARDEN'', DeleteCategory ''Tools'']
           (initializeStorage (empty_storage False)))"
    by blast
  from 1 2 3 4 5 6 show ?thesis by blast
qed

section \<open>Stored quantities\<close>

text \<open>
  Claim C4. \<^verbatim>\<open>updateItem\<close> stores \<^verbatim>\<open>parseInt\<close> of the quantity it is given without a
  range check. On the sample inventory, where every quantity is a non-negative integer,
  the edit with the quantity text \<^verbatim>\<open>"-3"\<close> returns \<^verbatim>\<open>true\<close> and leaves the item with
  the quantity \<open>-3\<close>.
\<close>

theorem updateItem_negative_quantity_stored:
  "quantities_ok example_state
   \<and> fst (updateItem ''item_1'' example_edit example_state) = True
   \<and> map quantity (getAllItems (snd (updateItem ''item_1'' example_edit example_state)))
       = [Number (Fin (- 3))]
   \<and> \<not> quantities_ok (snd (updateItem ''item_1'' example_edit example_state))"
proof -
  have run: "snd (updateItem ''item_1'' example_edit example_state)
      = example_state\<lparr>items := Some [\<lparr>item_id = ''item_1'', name = ''Widget'',
          category = ''Tools'', quantity = Number (Fin (- 3)), unitCost = Number (Fin (5 / 2)),
          dateAdded = 0, description = []\<rparr>]\<rparr>"
    by (simp add: updateItem_def loadFromLocalStorage_ITEMS_def saveToLocalStorage_ITEMS_def
        example_state_def example_widget_def example_edit_def merge_item_def json_item_def
        parseInt_str_minus3 parseFloat_str_2_5)
  have ret: "fst (updateItem ''item_1'' example_edit example_state) = True"
    by (simp add: updateItem_def loadFromLocalStorage_ITEMS_def saveToLocalStorage_ITEMS_def
        example_state_def example_widget_def json_item_def case_prod_beta)
  show ?thesis
    unfolding run
    by (simp add: ret example_quantities_ok)
       (simp add: quantities_ok_def getAllItems_def loadFromLocalStorage_ITEMS_def json_item_def)
qed

section \<open>The date-range filter\<close>

text \<open>
  Claim C7. A withdrawal passes \<^verbatim>\<open>getWithdrawalsByDateRange\<close> exactly when it is in the
  log and its date lies between the start bound and the widened end bound, both ends
  included. An absent (or empty) start is \<^verbatim>\<open>1970-01-01\<close>, time value 0; an absent end is
  \<^verbatim>\<open>2100-12-31\<close>. The end bound \<open>e\<close> is moved to 23:59:59.999 local time of the local
  calendar day it lies in, which is never before \<open>e\<close>. Hence a withdrawal dated exactly
  at the instant the end date denotes, 00:00:00 UTC of that day, passes the filter with
  that end date, whatever the time zone, as long as the start bound does not exclude it.
\<close>

theorem date_range_filter_inclusive:
  "(w \<in> set (getWithdrawalsByDateRange tz startDate endDate st)
      \<longleftrightarrow> w \<in> set (getAllWithdrawals st)
           \<and> (\<exists>s e. date_or startDate ''1970-01-01'' = Some s
                    \<and> date_or endDate ''2100-12-31'' = Some e
                    \<and> s \<le> date w \<and> date w \<le> setHours tz e 23 59 59 999))
   \<and> (\<not> truthy startDate \<longrightarrow> date_or startDate ''1970-01-01'' = Some 0)
   \<and> (\<not> truthy endDate \<longrightarrow> date_or endDate ''2100-12-31'' = Some 4133894400000)
   \<and> (\<forall>d. d \<noteq> [] \<longrightarrow> date_or (Some d) ''1970-01-01'' = Date_parse d
                    \<and> date_or (Some d) ''2100-12-31'' = Date_parse d)
   \<and> e \<le> setHours tz e 23 59 59 999
   \<and> (setHours tz e 23 59 59 999 + tz * 60000) mod 86400000 = 86399999
   \<and> (setHours tz e 23 59 59 999 + tz * 60000) div 86400000 = (e + tz * 60000) div 86400000
   \<and> (\<forall>d s. d \<noteq> [] \<and> Date_parse d = Some e \<and> date_or startDate ''1970-01-01'' = Some s
            \<and> s \<le> e \<and> w \<in> set (getAllWithdrawals st) \<and> date w = e \<longrightarrow>
          w \<in> set (getWithdrawalsByDateRange tz startDate (Some d) st))"
proof (intro conjI allI impI)
  show "date_or startDate ''1970-01-01'' = Some 0" if "\<not> truthy startDate"
    using that by (cases startDate) (simp_all add: date_or_def Date_parse_epoch)
  show "date_or endDate ''2100-12-31'' = Some 4133894400000" if "\<not> truthy endDate"
    using that by (cases endDate) (simp_all add: date_or_def Date_parse_sentinel)
next
  fix d s
  assume a: "d \<noteq> [] \<and> Date_parse d = Some e \<and> date_or startDate ''1970-01-01'' = Some s
            \<and> s \<le> e \<and> w \<in> set (getAllWithdrawals st) \<and> date w = e"
  then have "date_or (Some d) ''2100-12-31'' = Some e"
    by (simp add: date_or_def)
  with a setHours_widens [of e tz]
  show "w \<in> set (getWithdrawalsByDateRange tz startDate (Some d) st)"
    unfolding in_date_range_iff by blast
qed (simp_all add: in_date_range_iff setHours_widens setHours_local_time setHours_local_day
       date_or_def)

theorem date_range_filter_inclusive_witness:
  "example_withdrawal \<in> set (getWithdrawalsByDateRange (- 300) None (Some ''2024-01-15'')
       example_log_state)
   \<and> date_or None ''1970-01-01'' = Some 0
   \<and> date_or None ''2100-12-31'' = Some 4133894400000
   \<and> date_or (Some ''2024-01-15'') ''2100-12-31'' = Some 1705276800000"
proof -
  have log: "example_withdrawal \<in> set (getAllWithdrawals example_log_state)"
    by (simp add: getAllWithdrawals_def example_log_state_def example_withdrawal_def
        loadFromLocalStorage_WITHDRAWALS_def json_withdrawal_def)
  have d: "date example_withdrawal = 1705276800000"
    by (simp add: example_withdrawal_def)
  note t = date_range_filter_inclusive
    [of example_withdrawal "- 300" None _ example_log_state 1705276800000]
  from t [of None] have s: "date_or None ''1970-01-01'' = Some 0"
     and e: "date_or None ''2100-12-31'' = Some 4133894400000"
    by simp_all
  from t [of None] have p: "date_or (Some ''2024-01-15'') ''2100-12-31'' = Date_parse ''2024-01-15''"
    by blast
  from t [of None] have "''2024-01-15'' \<noteq> [] \<and> Date_parse ''2024-01-15'' = Some 1705276800000
      \<and> date_or None ''1970-01-01'' = Some 0 \<and> (0::int) \<le> 1705276800000
      \<and> example_withdrawal \<in> set (getAllWithdrawals example_log_state)
      \<and> date example_withdrawal = 1705276800000 \<longrightarrow>
       example_withdrawal \<in> set (getWithdrawalsByDateRange (- 300) None (Some ''2024-01-15'')
       example_log_state)"
    by blast
  with s log d Date_parse_example
  have "example_withdrawal \<in> set (getWithdrawalsByDateRange (- 300) None (Some ''2024-01-15'')
       example_log_state)" by simp
  with s e p Date_parse_example show ?thesis by simp
qed

text \<open>
  Remark. The day that is widened is the local day of 00:00 UTC. West of UTC that is the
  day before the end date: at five hours behind UTC, a withdrawal recorded at 10:00 local
  time on 2024-01-15 does not pass the filter with the end date \<^verbatim>\<open>2024-01-15\<close>.
\<close>

lemma date_range_west_of_utc_example:
  "getWithdrawalsByDateRange (- 300) None (Some ''2024-01-15'')
     (example_state\<lparr>withdrawals := Some [example_withdrawal\<lparr>date := 1705330800000\<rparr>]\<rparr>) = []"
  by (simp add: getWithdrawalsByDateRange_def getAllWithdrawals_def
      loadFromLocalStorage_WITHDRAWALS_def json_withdrawal_def example_withdrawal_def
      date_or_def Date_parse_epoch Date_parse_example setHours_end_of_day)

section \<open>Statistics\<close>

text \<open>
  Claim C8. For the empty set of withdrawals \<^verbatim>\<open>renderStatistics\<close> shows the no-data
  message, and only for it; a report over an empty log is that message. Whenever the
  cards are computed, the average is the total cost divided by the number of withdrawals,
  which is not zero, so the quotient \<open>0 / 0\<close> is never formed; for withdrawals as they
  come from the store the average is not \<open>NaN\<close>.
\<close>

theorem renderStatistics_no_data_for_empty:
  "renderStatistics [] = NoData
   \<and> (renderStatistics ws = NoData \<longleftrightarrow> ws = [])
   \<and> (getAllWithdrawals st = [] \<longrightarrow> generateReport tz fs st = NoData)
   \<and> (\<forall>s. renderStatistics ws = Cards s \<longrightarrow>
          ws \<noteq> [] \<and> totalWithdrawals s = length ws
          \<and> avgCost s = js_div (s_totalCost s) (Fin (of_nat (length ws)))
          \<and> (of_nat (length ws) :: rat) \<noteq> 0)
   \<and> (\<forall>s. renderStatistics ws = Cards s \<and> (\<forall>w \<in> set ws. json (totalCost w) = totalCost w)
          \<longrightarrow> avgCost s \<noteq> NaN)"
proof (intro conjI allI impI)
  show "renderStatistics [] = NoData"
    by (simp add: renderStatistics_def)
  show "renderStatistics ws = NoData \<longleftrightarrow> ws = []"
    by (simp add: renderStatistics_def Let_def)
  show "generateReport tz fs st = NoData" if "getAllWithdrawals st = []"
    using that
    by (simp add: generateReport_def Let_def date_range_of_empty_log renderStatistics_def
        split: option.split)
next
  fix s
  assume c: "renderStatistics ws = Cards s"
  then have ne: "ws \<noteq> []"
    by (auto simp: renderStatistics_def)
  then show "ws \<noteq> []" .
  from c ne show "totalWithdrawals s = length ws"
    by (auto simp: renderStatistics_def Let_def)
  from c ne show "avgCost s = js_div (s_totalCost s) (Fin (of_nat (length ws)))"
    by (auto simp: renderStatistics_def Let_def)
  from ne show "(of_nat (length ws) :: rat) \<noteq> 0"
    by simp
next
  fix s
  assume c: "renderStatistics ws = Cards s \<and> (\<forall>w \<in> set ws. json (totalCost w) = totalCost w)"
  then have ne: "ws \<noteq> []"
    by (auto simp: renderStatistics_def)
  from c have "foldl (\<lambda>sum w. js_add sum (ToNumber (totalCost w))) (Fin 0) ws \<noteq> NaN"
    by (intro sum_of_stored_not_NaN) simp_all
  moreover from ne have "(of_nat (length ws) :: rat) \<noteq> 0"
    by simp
  ultimately have "js_div (foldl (\<lambda>sum w. js_add sum (ToNumber (totalCost w))) (Fin 0) ws)
      (Fin (of_nat (length ws))) \<noteq> NaN"
    by (rule js_div_count_not_NaN)
  with c ne show "avgCost s \<noteq> NaN"
    by (auto simp: renderStatistics_def Let_def)
qed

theorem renderStatistics_no_data_for_empty_witness:
  "renderStatistics [] = NoData
   \<and> generateReport 0 \<lparr>f_startDate = None, f_endDate = None, f_category = None\<rparr> example_state
       = NoData
   \<and> (\<exists>s. renderStatistics [example_withdrawal, example_withdrawal] = Cards s
         \<and> totalWithdrawals s = 2
         \<and> avgCost s = js_div (s_totalCost s) (Fin 2)
         \<and> avgCost s \<noteq> NaN)"
proof -
  let ?ws = "[example_withdrawal, example_withdrawal]"
  note t = renderStatistics_no_data_for_empty
    [of ?ws example_state 0 "\<lparr>f_startDate = None, f_endDate = None, f_category = None\<rparr>"]
  have empty: "getAllWithdrawals example_state = []"
    by (simp add: getAllWithdrawals_def loadFromLocalStorage_WITHDRAWALS_def example_state_def)
  from t have "renderStatistics ?ws \<noteq> NoData" by simp
  then obtain s where s: "renderStatistics ?ws = Cards s"
    by (cases "renderStatistics ?ws") auto
  have stored: "\<forall>w \<in> set ?ws. json (totalCost w) = totalCost w"
    by (simp add: example_withdrawal_def)
  from t s have 1: "totalWithdrawals s = length ?ws"
    and 2: "avgCost s = js_div (s_totalCost s) (Fin (of_nat (length ?ws)))"
    by blast+
  from t s stored have 3: "avgCost s \<noteq> NaN" by blast
  from t empty have 4: "generateReport 0 \<lparr>f_startDate = None, f_endDate = None, f_category = None\<rparr>
      example_state = NoData" by blast
  from t have 5: "renderStatistics [] = NoData" by blast
  from s 1 2 3 4 5 show ?thesis by simp
qed

end
